theory Spec2Isabelle
  imports Complex_Main "HOL-Library.List_Lexorder" "HOL-Library.Char_ord" "HOL-Library.AList"
    "HOL-Library.Multiset"
begin

section \<open>JavaScript values\<close>

text \<open>
  Request bodies, stored documents and upstream replies are JSON. A number is carried by its
  numeric value; a string by the bytes of its UTF-8 encoding, which keeps equality and
  emptiness; an object by its entries, where a property reads the first entry of its name.
  The value \<open>undefined\<close> is the \<open>None\<close> of an option: reading a property that an object
  does not have yields it, and serialising an object leaves such a property out.

  Objects inherit from \<open>Object.prototype\<close>. The model describes a process in which
  \<open>Object.prototype\<close> has the properties the language gives it and no other; the one call
  that writes it is marked where it occurs, and a history of the store ends there.
\<close>

datatype json =
    JNull
  | JBool bool
  | JNum rat
  | JStr string
  | JArr "json list"
  | JObj "(string \<times> json) list"

text \<open>
  Modelled from the spec: \<open>utils/ApiError\<close> is not among the sources. An \<open>ApiError\<close>
  carries the status code and the message handed to its constructor, in this order
  (\<open>new ApiError(404, 'Conversation not found')\<close>); the tests read them back as
  \<open>statusCode\<close> and \<open>message\<close>. The other exceptions are the \<open>TypeError\<close> and the
  \<open>SyntaxError\<close> of the language and the \<open>Error\<close> the mock store throws.
\<close>

datatype js_error =
    ApiError nat json
  | TypeError
  | SyntaxError
  | Error string

text \<open>\<open>err.statusCode\<close>: only an \<open>ApiError\<close> has one.\<close>

fun err_statusCode :: "js_error \<Rightarrow> nat option" where
  "err_statusCode (ApiError s m) = Some s"
| "err_statusCode TypeError = None"
| "err_statusCode SyntaxError = None"
| "err_statusCode (Error m) = None"

text \<open>Truthiness, as \<open>!x\<close>, \<open>x || y\<close> and \<open>x && y\<close> test it.\<close>

fun truthy :: "json \<Rightarrow> bool" where
  "truthy JNull = False"
| "truthy (JBool b) = b"
| "truthy (JNum n) = (n \<noteq> 0)"
| "truthy (JStr s) = (s \<noteq> [])"
| "truthy (JArr xs) = True"
| "truthy (JObj kvs) = True"

text \<open>
  \<open>v.k\<close> for a receiver that is not \<open>null\<close>. None of the property names read by this
  program (\<open>role\<close>, \<open>content\<close>, \<open>timestamp\<close>, \<open>messages\<close>, \<open>metadata\<close>, \<open>source\<close>,
  \<open>agentModel\<close>, \<open>sessionId\<close>, \<open>userId\<close>, \<open>error\<close>, \<open>message\<close>) is a property of an
  array, a string, a number or a boolean, so these receivers yield \<open>undefined\<close>.
\<close>

fun field :: "json \<Rightarrow> string \<Rightarrow> json option" where
  "field (JObj kvs) k = map_of kvs k"
| "field v k = None"

text \<open>\<open>v.k\<close> in general: reading a property of \<open>null\<close> or \<open>undefined\<close> throws.\<close>

fun get_prop :: "json option \<Rightarrow> string \<Rightarrow> js_error + json option" where
  "get_prop None k = Inl TypeError"
| "get_prop (Some JNull) k = Inl TypeError"
| "get_prop (Some v) k = Inr (field v k)"

text \<open>\<open>v?.k\<close>: \<open>undefined\<close> for a receiver that is \<open>null\<close> or \<open>undefined\<close>.\<close>

fun opt_prop :: "json option \<Rightarrow> string \<Rightarrow> json option" where
  "opt_prop None k = None"
| "opt_prop (Some JNull) k = None"
| "opt_prop (Some v) k = field v k"

text \<open>\<open>a || b\<close> with a right operand that is a JSON value.\<close>

fun or_else :: "json option \<Rightarrow> json \<Rightarrow> json" where
  "or_else None b = b"
| "or_else (Some a) b = (if truthy a then a else b)"

text \<open>\<open>a && a.k\<close>: the falsy \<open>a\<close> itself, or the property of the truthy one.\<close>

fun and_prop :: "json option \<Rightarrow> string \<Rightarrow> json option" where
  "and_prop None k = None"
| "and_prop (Some a) k = (if truthy a then field a k else Some a)"

text \<open>\<open>a === b\<close> between a stored value and a query value: primitives are compared by
  value; an array or an object is only identical to itself, and a stored value is a fresh
  copy (\<open>JSON.parse(JSON.stringify(data))\<close>), never the object of the query.\<close>

fun strict_eq :: "json option \<Rightarrow> json option \<Rightarrow> bool" where
  "strict_eq None None = True"
| "strict_eq (Some JNull) (Some JNull) = True"
| "strict_eq (Some (JBool a)) (Some (JBool b)) = (a = b)"
| "strict_eq (Some (JNum a)) (Some (JNum b)) = (a = b)"
| "strict_eq (Some (JStr a)) (Some (JStr b)) = (a = b)"
| "strict_eq a b = False"

section \<open>The conversation document\<close>

record message =
  role :: "json option"
  content :: "json option"
  timestamp :: json

record conv_metadata =
  source :: json
  agentModel :: json

record doc =
  sessionId :: "json option"
  userId :: "json option"
  messages :: "message list"
  metadata :: conv_metadata
  createdAt :: string
  updatedAt :: string

text \<open>A conversation as the repository returns it: \<open>{ id: doc.id, ...doc.data() }\<close>.\<close>

record conversation =
  doc_id :: string
  doc_data :: doc

text \<open>
  What the repository returns for an id under which the store finds something: a
  conversation; or, when what it finds is \<open>Object.prototype\<close>, an object with the id alone
  (the copy of \<open>Object.prototype\<close> has no property), or with the id and the \<open>messages\<close> and
  \<open>updatedAt\<close> that the call has just written to \<open>Object.prototype\<close>.
\<close>

datatype returned =
    Stored conversation
  | OnlyId string
  | PrototypeCopy string "message list" string

section \<open>The in-memory document store\<close>

text \<open>
  The store of the mock: the documents of the collection \<open>conversations\<close> in insertion
  order (the order of \<open>Object.entries\<close>), and the counter of generated ids. The collection
  is created by the first \<open>add\<close>, which also makes the counter positive, and it stays. The
  wall clock is a sequence of readings \<open>clk 0, clk 1, \<dots>\<close>, each an ISO-8601 string as
  \<open>new Date().toISOString()\<close> returns it; \<open>reads\<close> counts the readings taken so far.
\<close>

record world =
  store :: "(string \<times> doc) list"
  idCounter :: nat
  reads :: nat

type_synonym clock = "nat \<Rightarrow> string"

definition clearStore :: world where
  "clearStore = \<lparr>store = [], idCounter = 0, reads = 0\<rparr>"

definition new_Date :: "clock \<Rightarrow> world \<Rightarrow> string \<times> world" where
  "new_Date clk w = (clk (reads w), w\<lparr>reads := Suc (reads w)\<rparr>)"

fun digits :: "nat \<Rightarrow> string" where
  "digits n =
     (if n < 10 then [char_of (48 + n)]
      else digits (n div 10) @ [char_of (48 + n mod 10)])"

declare digits.simps [simp del]

definition mock_id :: "nat \<Rightarrow> string" where
  "mock_id n = ''mock-id-'' @ digits n"

text \<open>\<open>MockCollectionRef.add\<close>: the counter is incremented first, then names the id.\<close>

definition add :: "doc \<Rightarrow> world \<Rightarrow> string \<times> world" where
  "add d w =
     (let n = Suc (idCounter w); i = mock_id n
      in (i, w\<lparr>idCounter := n, store := AList.update i d (store w)\<rparr>))"

text \<open>
  The collection is a plain object, so \<open>store[collection][id]\<close> also finds the properties
  that every object inherits from \<open>Object.prototype\<close>: eleven functions, and
  \<open>Object.prototype\<close> itself under \<open>__proto__\<close>.
\<close>

datatype inherited = Function | ObjectPrototype

definition inherited_property :: "string \<Rightarrow> inherited option" where
  "inherited_property k =
     (if k = ''__proto__'' then Some ObjectPrototype
      else if k \<in> set [''constructor'', ''__defineGetter__'', ''__defineSetter__'',
                        ''hasOwnProperty'', ''__lookupGetter__'', ''__lookupSetter__'',
                        ''isPrototypeOf'', ''propertyIsEnumerable'', ''toString'', ''valueOf'',
                        ''toLocaleString'']
      then Some Function
      else None)"

datatype snapshot_data = Document doc | Inherited inherited

text \<open>
  \<open>MockDocRef.get\<close>: the data of the snapshot, \<open>store[collection] &&
  store[collection][id]\<close>; the snapshot \<open>exists\<close> unless the data are \<open>undefined\<close>. A
  document stored under the id comes first, then an inherited property, once the
  collection is there.
\<close>

definition docRef_get :: "string \<Rightarrow> world \<Rightarrow> snapshot_data option" where
  "docRef_get i w =
     (case map_of (store w) i of
        Some d \<Rightarrow> Some (Document d)
      | None \<Rightarrow>
          if idCounter w = 0 then None
          else map_option Inherited (inherited_property i))"

text \<open>
  \<open>{ id: doc.id, ...doc.data() }\<close> for a snapshot that exists, where \<open>data()\<close> is
  \<open>JSON.parse(JSON.stringify(data))\<close>: a document is copied; a function serialises to
  \<open>undefined\<close>, which \<open>JSON.parse\<close> rejects; \<open>Object.prototype\<close> serialises to \<open>{}\<close>.
\<close>

fun with_id :: "string \<Rightarrow> snapshot_data \<Rightarrow> js_error + returned" where
  "with_id i (Document d) = Inr (Stored \<lparr>doc_id = i, doc_data = d\<rparr>)"
| "with_id i (Inherited Function) = Inl SyntaxError"
| "with_id i (Inherited ObjectPrototype) = Inr (OnlyId i)"

text \<open>
  \<open>MockDocRef.update\<close> with the one update this program issues:
  \<open>{ messages: FieldValue.arrayUnion(...newMessages), updatedAt: now }\<close>. The mock
  concatenates the elements of an \<open>arrayUnion\<close> to the array it finds and overwrites a
  plain field, on whatever \<open>store[collection][id]\<close> is: a stored document; an inherited
  function, whose new properties nothing reads; or \<open>Object.prototype\<close>, which had no
  \<open>messages\<close>.
\<close>

datatype update_effect =
    Updated world
  | FunctionWritten
  | PrototypeWritten "message list" string

definition docRef_update ::
  "string \<Rightarrow> message list \<Rightarrow> string \<Rightarrow> world \<Rightarrow> js_error + update_effect" where
  "docRef_update i elements now w =
     (case docRef_get i w of
        None \<Rightarrow> Inl (Error ''Document not found'')
      | Some (Document existing) \<Rightarrow>
          Inr (Updated (w\<lparr>store := AList.update i
                 (existing\<lparr>messages := messages existing @ elements, updatedAt := now\<rparr>)
                 (store w)\<rparr>))
      | Some (Inherited Function) \<Rightarrow> Inr FunctionWritten
      | Some (Inherited ObjectPrototype) \<Rightarrow> Inr (PrototypeWritten elements now))"

text \<open>\<open>MockDocRef.delete\<close>: \<open>delete\<close> removes a property of the collection's own and
  leaves an inherited one.\<close>

definition docRef_delete :: "string \<Rightarrow> world \<Rightarrow> world" where
  "docRef_delete i w = w\<lparr>store := AList.delete i (store w)\<rparr>"

section \<open>The history repository (models/ConversationHistory.js)\<close>

text \<open>The object literal built for each message: three properties and no other.\<close>

definition message_of :: "string \<Rightarrow> json \<Rightarrow> message" where
  "message_of now m =
     \<lparr>role = field m ''role'',
      content = field m ''content'',
      timestamp = or_else (field m ''timestamp'') (JStr now)\<rparr>"

definition toMessage :: "string \<Rightarrow> json \<Rightarrow> js_error + message" where
  "toMessage now m = (if m = JNull then Inl TypeError else Inr (message_of now m))"

text \<open>\<open>xs.map(f)\<close> for a callback that may throw: the first exception ends the loop.\<close>

fun map_throwing :: "('a \<Rightarrow> js_error + 'b) \<Rightarrow> 'a list \<Rightarrow> js_error + 'b list" where
  "map_throwing f [] = Inr []"
| "map_throwing f (x # xs) =
     (case f x of
        Inl e \<Rightarrow> Inl e
      | Inr y \<Rightarrow> (case map_throwing f xs of Inl e \<Rightarrow> Inl e | Inr ys \<Rightarrow> Inr (y # ys)))"

text \<open>\<open>v.map(f)\<close> on a value: only an array has \<open>map\<close>.\<close>

fun map_messages :: "string \<Rightarrow> json \<Rightarrow> js_error + message list" where
  "map_messages now (JArr ms) = map_throwing (toMessage now) ms"
| "map_messages now v = Inl TypeError"

text \<open>The body of \<open>create\<close> for a value that is not an array.\<close>

definition create_one :: "clock \<Rightarrow> json \<Rightarrow> world \<Rightarrow> (js_error + conversation) \<times> world" where
  "create_one clk data w =
     (let (now, w1) = new_Date clk w
      in if data = JNull then (Inl TypeError, w1)
         else (case map_messages now (or_else (field data ''messages'') (JArr [])) of
                 Inl e \<Rightarrow> (Inl e, w1)
               | Inr ms \<Rightarrow>
                   (let d = \<lparr>sessionId = field data ''sessionId'',
                             userId = field data ''userId'',
                             messages = ms,
                             metadata =
                               \<lparr>source = or_else (and_prop (field data ''metadata'') ''source'') (JStr ''web''),
                                agentModel = or_else (and_prop (field data ''metadata'') ''agentModel'') JNull\<rparr>,
                             createdAt = now,
                             updatedAt = now\<rparr>;
                        (ref, w2) = add d w1
                    in (Inr \<lparr>doc_id = ref, doc_data = d\<rparr>, w2))))"

datatype created = Created conversation | CreatedMany "created list"

text \<open>\<open>create\<close>: an array is created item by item, each item by \<open>create\<close> itself.\<close>

fun create :: "clock \<Rightarrow> json \<Rightarrow> world \<Rightarrow> (js_error + created) \<times> world"
  and create_items :: "clock \<Rightarrow> json list \<Rightarrow> world \<Rightarrow> (js_error + created list) \<times> world" where
  "create clk (JArr items) w =
     (case create_items clk items w of
        (Inl e, w') \<Rightarrow> (Inl e, w')
      | (Inr results, w') \<Rightarrow> (Inr (CreatedMany results), w'))"
| "create clk data w =
     (case create_one clk data w of
        (Inl e, w') \<Rightarrow> (Inl e, w')
      | (Inr c, w') \<Rightarrow> (Inr (Created c), w'))"
| "create_items clk [] w = (Inr [], w)"
| "create_items clk (item # items) w =
     (case create clk item w of
        (Inl e, w') \<Rightarrow> (Inl e, w')
      | (Inr r, w') \<Rightarrow>
          (case create_items clk items w' of
             (Inl e, w'') \<Rightarrow> (Inl e, w'')
           | (Inr rs, w'') \<Rightarrow> (Inr (r # rs), w'')))"

definition findById :: "string \<Rightarrow> world \<Rightarrow> js_error + returned option" where
  "findById i w =
     (case docRef_get i w of
        None \<Rightarrow> Inr None
      | Some found \<Rightarrow> map_sum id Some (with_id i found))"

text \<open>
  \<open>appendMessages\<close>: \<open>null\<close> when the snapshot does not exist; otherwise the messages
  are mapped, the update is issued and what is under the id is read back. After an update
  of a stored document that is the updated document. An inherited function cannot be
  copied. \<open>Object.prototype\<close> is copied with the two properties just written to it; the
  world returned with this copy is the store as the call leaves it, unchanged but for the
  clock reading.
\<close>

definition ConversationHistory_appendMessages ::
  "clock \<Rightarrow> string \<Rightarrow> json \<Rightarrow> world \<Rightarrow> (js_error + returned option) \<times> world" where
  "ConversationHistory_appendMessages clk i msgs w =
     (case docRef_get i w of
        None \<Rightarrow> (Inr None, w)
      | Some found \<Rightarrow>
          (let (now, w1) = new_Date clk w
           in (case map_messages now msgs of
                 Inl e \<Rightarrow> (Inl e, w1)
               | Inr newMessages \<Rightarrow>
                   (case docRef_update i newMessages now w1 of
                      Inl e \<Rightarrow> (Inl e, w1)
                    | Inr (Updated w2) \<Rightarrow> (findById i w2, w2)
                    | Inr FunctionWritten \<Rightarrow> (Inl SyntaxError, w1)
                    | Inr (PrototypeWritten written now') \<Rightarrow>
                        (Inr (Some (PrototypeCopy i written now')), w1)))))"

text \<open>\<open>deleteById\<close>: the copy is taken before the document is deleted.\<close>

definition deleteById :: "string \<Rightarrow> world \<Rightarrow> (js_error + returned option) \<times> world" where
  "deleteById i w =
     (case docRef_get i w of
        None \<Rightarrow> (Inr None, w)
      | Some found \<Rightarrow>
          (case with_id i found of
             Inl e \<Rightarrow> (Inl e, w)
           | Inr r \<Rightarrow> (Inr (Some r), docRef_delete i w)))"

subsection \<open>The chainable query of the mock\<close>

text \<open>
  The query builder with the clauses the repository issues: \<open>where('userId', '==', v)\<close>,
  \<open>orderBy('updatedAt', dir)\<close>, \<open>offset(n)\<close> and \<open>limit(n)\<close>. A limit of \<open>None\<close> is
  the \<open>Infinity\<close> a new query starts with.
\<close>

datatype direction = Asc | Desc

record MockQuery =
  filters :: "json option list"
  orderByDir :: "direction option"
  offsetVal :: int
  limitVal :: "int option"

definition collection :: MockQuery where
  "collection = \<lparr>filters = [], orderByDir = None, offsetVal = 0, limitVal = None\<rparr>"

definition where_userId :: "json option \<Rightarrow> MockQuery \<Rightarrow> MockQuery" where
  "where_userId v q = q\<lparr>filters := filters q @ [v]\<rparr>"

definition orderBy_updatedAt :: "direction \<Rightarrow> MockQuery \<Rightarrow> MockQuery" where
  "orderBy_updatedAt dir q = q\<lparr>orderByDir := Some dir\<rparr>"

definition query_offset :: "int \<Rightarrow> MockQuery \<Rightarrow> MockQuery" where
  "query_offset n q = q\<lparr>offsetVal := n\<rparr>"

definition query_limit :: "int \<Rightarrow> MockQuery \<Rightarrow> MockQuery" where
  "query_limit n q = q\<lparr>limitVal := Some n\<rparr>"

definition getFilteredDocs :: "MockQuery \<Rightarrow> world \<Rightarrow> (string \<times> doc) list" where
  "getFilteredDocs q w =
     foldl (\<lambda>docs v. filter (\<lambda>d. strict_eq (userId (snd d)) v) docs) (store w) (filters q)"

text \<open>The comparator handed to \<open>docs.sort\<close>; the values compared are \<open>updatedAt\<close>
  strings, which are ASCII: their bytes order them as JavaScript orders their code
  units.\<close>

definition compare_docs :: "direction \<Rightarrow> string \<times> doc \<Rightarrow> string \<times> doc \<Rightarrow> int" where
  "compare_docs dir a b =
     (let aVal = updatedAt (snd a); bVal = updatedAt (snd b)
      in if aVal < bVal then (if dir = Asc then - 1 else 1)
         else if aVal > bVal then (if dir = Asc then 1 else - 1)
         else 0)"

text \<open>
  \<open>Array.prototype.sort\<close> is stable: elements the comparator ranks equal keep their
  order. Insertion from the right, each element placed before the first one it does not
  exceed, computes that arrangement.
\<close>

fun insert_by :: "('a \<Rightarrow> 'a \<Rightarrow> int) \<Rightarrow> 'a \<Rightarrow> 'a list \<Rightarrow> 'a list" where
  "insert_by cmp x [] = [x]"
| "insert_by cmp x (y # ys) =
     (if cmp x y \<le> 0 then x # y # ys else y # insert_by cmp x ys)"

definition sort_by :: "('a \<Rightarrow> 'a \<Rightarrow> int) \<Rightarrow> 'a list \<Rightarrow> 'a list" where
  "sort_by cmp xs = foldr (insert_by cmp) xs []"

text \<open>\<open>xs.slice(start, end)\<close>: a negative index counts from the end, both are clamped to
  the array; an end of \<open>None\<close> is \<open>Infinity\<close>.\<close>

definition slice :: "'a list \<Rightarrow> int \<Rightarrow> int option \<Rightarrow> 'a list" where
  "slice xs start end =
     (let len = int (length xs);
          k = (if start < 0 then max (len + start) 0 else min start len);
          final = (case end of
                     None \<Rightarrow> len
                   | Some e \<Rightarrow> if e < 0 then max (len + e) 0 else min e len)
      in take (nat (final - k)) (drop (nat k) xs))"

definition MockQuery_get :: "MockQuery \<Rightarrow> world \<Rightarrow> (string \<times> doc) list" where
  "MockQuery_get q w =
     (let docs = getFilteredDocs q w;
          docs = (case orderByDir q of
                    None \<Rightarrow> docs
                  | Some dir \<Rightarrow> sort_by (compare_docs dir) docs)
      in slice docs (offsetVal q) (map_option (\<lambda>l. offsetVal q + l) (limitVal q)))"

definition MockQuery_count :: "MockQuery \<Rightarrow> world \<Rightarrow> nat" where
  "MockQuery_count q w = length (getFilteredDocs q w)"

subsection \<open>Listing by owner\<close>

text \<open>A parameter with a default: \<open>{ page = 1, limit = 20 }\<close>.\<close>

definition default_to :: "'a \<Rightarrow> 'a option \<Rightarrow> 'a" where
  "default_to d v = (case v of None \<Rightarrow> d | Some x \<Rightarrow> x)"

definition findByUserId ::
  "json option \<Rightarrow> int option \<Rightarrow> int option \<Rightarrow> world \<Rightarrow> conversation list \<times> nat" where
  "findByUserId uid page_opt limit_opt w =
     (let page = default_to 1 page_opt;
          lmt = default_to 20 limit_opt;
          off = (page - 1) * lmt;
          snapshot = MockQuery_get
                       (query_limit lmt (query_offset off (orderBy_updatedAt Desc (where_userId uid collection)))) w;
          tot = MockQuery_count (where_userId uid collection) w
      in (map (\<lambda>(i, d). \<lparr>doc_id = i, doc_data = d\<rparr>) snapshot, tot))"

section \<open>The history service (services/historyService.js)\<close>

text \<open>An object literal: a property whose value is \<open>undefined\<close> reads as an absent one.\<close>

fun object :: "(string \<times> json option) list \<Rightarrow> (string \<times> json) list" where
  "object [] = []"
| "object ((k, None) # kvs) = object kvs"
| "object ((k, Some v) # kvs) = (k, v) # object kvs"


text \<open>A number that is an integer, an infinity or \<open>NaN\<close>.\<close>

datatype js_number = Num int | Infinity | NegInfinity | NaN

text \<open>The value of \<open>Math.ceil(total / limit)\<close>: a division by zero yields \<open>Infinity\<close>, or
  \<open>NaN\<close> for \<open>0 / 0\<close>. The quotient is taken exactly, as it is for counts below \<open>2^53\<close>.\<close>

definition Math_ceil_div :: "nat \<Rightarrow> int \<Rightarrow> js_number" where
  "Math_ceil_div n lmt =
     (if lmt = 0 then (if n = 0 then NaN else Infinity)
      else Num \<lceil>real n / real_of_int lmt\<rceil>)"

record pagination =
  page :: int
  limit :: int
  totalCount :: nat
  pages :: js_number

record listing =
  conversations :: "conversation list"
  pagination :: pagination

definition listConversations ::
  "json option \<Rightarrow> int option \<Rightarrow> int option \<Rightarrow> world \<Rightarrow> listing" where
  "listConversations uid page_opt limit_opt w =
     (let p = default_to 1 page_opt;
          lmt = default_to 20 limit_opt;
          (convs, tot) = findByUserId uid (Some p) (Some lmt) w
      in \<lparr>conversations = convs,
          pagination = \<lparr>page = p, limit = lmt, totalCount = tot, pages = Math_ceil_div tot lmt\<rparr>\<rparr>)"

definition notFound :: js_error where
  "notFound = ApiError 404 (JStr ''Conversation not found'')"

definition getConversation :: "string \<Rightarrow> world \<Rightarrow> js_error + returned" where
  "getConversation i w =
     (case findById i w of
        Inl e \<Rightarrow> Inl e
      | Inr None \<Rightarrow> Inl notFound
      | Inr (Some c) \<Rightarrow> Inr c)"

definition appendMessages ::
  "clock \<Rightarrow> string \<Rightarrow> json \<Rightarrow> world \<Rightarrow> (js_error + returned) \<times> world" where
  "appendMessages clk i msgs w =
     (case ConversationHistory_appendMessages clk i msgs w of
        (Inl e, w') \<Rightarrow> (Inl e, w')
      | (Inr None, w') \<Rightarrow> (Inl notFound, w')
      | (Inr (Some c), w') \<Rightarrow> (Inr c, w'))"

definition deleteConversation :: "string \<Rightarrow> world \<Rightarrow> (js_error + returned) \<times> world" where
  "deleteConversation i w =
     (case deleteById i w of
        (Inl e, w') \<Rightarrow> (Inl e, w')
      | (Inr None, w') \<Rightarrow> (Inl notFound, w')
      | (Inr (Some c), w') \<Rightarrow> (Inr c, w'))"

section \<open>The error boundary and the history controller\<close>

datatype 'a body = Payload 'a | ErrorBody js_error | NoBody

record 'a response =
  status :: nat
  body :: "'a body"

text \<open>\<open>errorHandler\<close>: the status is \<open>err.statusCode || 500\<close>; the body serialises the
  message of the error.\<close>

definition errorHandler :: "js_error \<Rightarrow> 'a response" where
  "errorHandler err =
     \<lparr>status = (case err_statusCode err of
                  None \<Rightarrow> 500
                | Some s \<Rightarrow> if s = 0 then 500 else s),
      body = ErrorBody err\<rparr>"

text \<open>A handler ends in \<open>res.json(\<dots>)\<close> or in \<open>next(err)\<close>, which reaches the error
  boundary.\<close>

definition respond :: "js_error + 'a response \<Rightarrow> 'a response" where
  "respond r = (case r of Inl err \<Rightarrow> errorHandler err | Inr res \<Rightarrow> res)"

fun truthy_opt :: "json option \<Rightarrow> bool" where
  "truthy_opt None = False"
| "truthy_opt (Some v) = truthy v"

fun isArray :: "json \<Rightarrow> bool" where
  "isArray (JArr xs) = True"
| "isArray v = False"

text \<open>\<open>v.length\<close>, read of a value that is an array.\<close>

fun array_length :: "json \<Rightarrow> nat" where
  "array_length (JArr xs) = length xs"
| "array_length v = 0"

text \<open>
  \<open>update\<close>, the handler of \<open>PUT /history/:id\<close>. The service it calls is a parameter, as
  the module it requires; a service call may change the store and may throw. A body without
  \<open>messages\<close> fails the first test, \<open>!messages\<close>.
\<close>

definition historyController_update ::
  "(string \<Rightarrow> json \<Rightarrow> 'w \<Rightarrow> (js_error + 'c) \<times> 'w) \<Rightarrow> string \<Rightarrow> json \<Rightarrow> 'w
     \<Rightarrow> (js_error + 'c response) \<times> 'w" where
  "historyController_update service_appendMessages params_id req_body w =
     (case get_prop (Some req_body) ''messages'' of
        Inl err \<Rightarrow> (Inl err, w)
      | Inr None \<Rightarrow>
          (Inl (ApiError 400 (JStr ''messages array is required and must not be empty'')), w)
      | Inr (Some msgs) \<Rightarrow>
          if \<not> truthy msgs \<or> \<not> isArray msgs \<or> array_length msgs = 0
          then (Inl (ApiError 400 (JStr ''messages array is required and must not be empty'')), w)
          else (case service_appendMessages params_id msgs w of
                  (Inl err, w') \<Rightarrow> (Inl err, w')
                | (Inr conversation, w') \<Rightarrow>
                    (Inr \<lparr>status = 200, body = Payload conversation\<rparr>, w')))"

subsection \<open>Query parameters\<close>

text \<open>A value of \<open>req.query\<close>: a string, or the array or object the query parser builds
  from repeated and bracketed names.\<close>

datatype query_value =
    QString string
  | QArray "query_value list"
  | QObject "(string \<times> query_value) list"

type_synonym query = "string \<rightharpoonup> query_value"

fun join :: "string \<Rightarrow> string list \<Rightarrow> string" where
  "join sep [] = []"
| "join sep [x] = x"
| "join sep (x # y # ys) = x @ sep @ join sep (y # ys)"

fun ToString :: "query_value \<Rightarrow> string" where
  "ToString (QString s) = s"
| "ToString (QArray xs) = join '','' (map ToString xs)"
| "ToString (QObject kvs) = ''[object Object]''"

fun json_of_query :: "query_value \<Rightarrow> json" where
  "json_of_query (QString s) = JStr s"
| "json_of_query (QArray xs) = JArr (map json_of_query xs)"
| "json_of_query (QObject kvs) = JObj (map (\<lambda>kv. (fst kv, json_of_query (snd kv))) kvs)"

text \<open>\<open>!v\<close> for a query value: only the empty string (and \<open>undefined\<close>) is falsy.\<close>

fun query_truthy :: "query_value option \<Rightarrow> bool" where
  "query_truthy None = False"
| "query_truthy (Some (QString s)) = (s \<noteq> [])"
| "query_truthy (Some v) = True"

text \<open>
  The white space that \<open>parseInt\<close> skips, each code point in UTF-8: tab, line feed,
  vertical tab, form feed, carriage return, space, U+00A0, U+1680, U+2000 to U+200A, the
  line and paragraph separators U+2028 and U+2029, U+202F, U+205F, U+3000 and U+FEFF.
\<close>

definition white_space :: "string list" where
  "white_space =
     [[CHR 0x09], [CHR 0x0A], [CHR 0x0B], [CHR 0x0C], [CHR 0x0D], [CHR 0x20],
      [CHR 0xC2, CHR 0xA0],
      [CHR 0xE1, CHR 0x9A, CHR 0x80],
      [CHR 0xE2, CHR 0x80, CHR 0x80], [CHR 0xE2, CHR 0x80, CHR 0x81],
      [CHR 0xE2, CHR 0x80, CHR 0x82], [CHR 0xE2, CHR 0x80, CHR 0x83],
      [CHR 0xE2, CHR 0x80, CHR 0x84], [CHR 0xE2, CHR 0x80, CHR 0x85],
      [CHR 0xE2, CHR 0x80, CHR 0x86], [CHR 0xE2, CHR 0x80, CHR 0x87],
      [CHR 0xE2, CHR 0x80, CHR 0x88], [CHR 0xE2, CHR 0x80, CHR 0x89],
      [CHR 0xE2, CHR 0x80, CHR 0x8A],
      [CHR 0xE2, CHR 0x80, CHR 0xA8], [CHR 0xE2, CHR 0x80, CHR 0xA9],
      [CHR 0xE2, CHR 0x80, CHR 0xAF],
      [CHR 0xE2, CHR 0x81, CHR 0x9F],
      [CHR 0xE3, CHR 0x80, CHR 0x80],
      [CHR 0xEF, CHR 0xBB, CHR 0xBF]]"

text \<open>The number of bytes of the white space character a string begins with, 0 when it
  begins with none.\<close>

definition leading_space :: "string \<Rightarrow> nat" where
  "leading_space s =
     (case List.find (\<lambda>p. take (length p) s = p) white_space of
        None \<Rightarrow> 0
      | Some p \<Rightarrow> length p)"

fun skip_spaces :: "nat \<Rightarrow> string \<Rightarrow> string" where
  "skip_spaces 0 s = s"
| "skip_spaces (Suc n) s =
     (if leading_space s = 0 then s else skip_spaces n (drop (leading_space s) s))"

text \<open>A string has no more white space characters than bytes.\<close>

definition trim_start :: "string \<Rightarrow> string" where
  "trim_start s = skip_spaces (length s) s"

definition is_digit :: "char \<Rightarrow> bool" where
  "is_digit c = (CHR ''0'' \<le> c \<and> c \<le> CHR ''9'')"

definition digit_value :: "char \<Rightarrow> int" where
  "digit_value c = int (of_char c) - 48"

definition decimal :: "string \<Rightarrow> int" where
  "decimal z = foldl (\<lambda>a c. 10 * a + digit_value c) 0 z"

text \<open>
  The Number value of an integer: the nearest double, a tie going to the even
  significand of 53 bits, and an infinity from \<open>2^1024 - 2^970\<close> on.
\<close>

function bit_length :: "int \<Rightarrow> nat" where
  "bit_length n = (if n \<le> 0 then 0 else Suc (bit_length (n div 2)))"
  by pat_completeness auto
termination
  by (relation "measure nat") auto

declare bit_length.simps [simp del]

definition to_Number :: "int \<Rightarrow> js_number" where
  "to_Number n =
     (let a = \<bar>n\<bar>; b = bit_length a
      in if b \<le> 53 then Num n
         else (let e = b - 53;
                   q = a div 2 ^ e;
                   r = a mod 2 ^ e;
                   half = 2 ^ (e - 1);
                   q' = (if half < r \<or> (r = half \<and> odd q) then q + 1 else q);
                   m = q' * 2 ^ e
               in if 2 ^ 1024 \<le> m then (if n < 0 then NegInfinity else Infinity)
                  else Num (if n < 0 then - m else m)))"

text \<open>
  \<open>parseInt(s, 10)\<close>: leading white space is skipped, then an optional sign, then the
  longest run of decimal digits is read; without a digit the result is \<open>NaN\<close>, otherwise
  the Number value of the signed integer read.
\<close>

definition parseInt :: "string \<Rightarrow> js_number" where
  "parseInt s =
     (let t = trim_start s;
          neg = (t \<noteq> [] \<and> hd t = CHR ''-'');
          u = (if t \<noteq> [] \<and> (hd t = CHR ''-'' \<or> hd t = CHR ''+'') then tl t else t);
          z = takeWhile is_digit u
      in if z = [] then NaN else to_Number ((if neg then - 1 else 1) * decimal z))"

text \<open>\<open>parseInt(v, 10)\<close> for a query parameter: the argument is converted to a string
  first, \<open>undefined\<close> to \<open>"undefined"\<close>.\<close>

definition parseInt_param :: "query_value option \<Rightarrow> js_number" where
  "parseInt_param v =
     parseInt (case v of None \<Rightarrow> ''undefined'' | Some x \<Rightarrow> ToString x)"

text \<open>\<open>n || d\<close> for a number: \<open>NaN\<close> and zero are falsy.\<close>

fun number_or :: "js_number \<Rightarrow> int \<Rightarrow> js_number" where
  "number_or NaN d = Num d"
| "number_or (Num x) d = (if x = 0 then Num d else Num x)"
| "number_or Infinity d = Infinity"
| "number_or NegInfinity d = NegInfinity"

text \<open>\<open>list\<close>, the handler of \<open>GET /history\<close>, with the service as a parameter; the
  service is given the user id and the two numbers of \<open>{ page, limit }\<close>.\<close>

definition historyController_list ::
  "(json option \<Rightarrow> js_number \<Rightarrow> js_number \<Rightarrow> 'w \<Rightarrow> (js_error + 'r) \<times> 'w) \<Rightarrow> query \<Rightarrow> 'w
     \<Rightarrow> (js_error + 'r response) \<times> 'w" where
  "historyController_list service_listConversations req_query w =
     (let uid = req_query ''userId'';
          p = req_query ''page'';
          l = req_query ''limit''
      in if \<not> query_truthy uid
         then (Inl (ApiError 400 (JStr ''userId query parameter is required'')), w)
         else (case service_listConversations (map_option json_of_query uid)
                      (number_or (parseInt_param p) 1)
                      (number_or (parseInt_param l) 20) w of
                 (Inl err, w') \<Rightarrow> (Inl err, w')
               | (Inr result, w') \<Rightarrow> (Inr \<lparr>status = 200, body = Payload result\<rparr>, w')))"

section \<open>The agent proxy (services/agentService.js)\<close>

text \<open>
  What a call of the HTTP client ends in: a response with a status the client accepts, an
  error that carries the upstream's response (\<open>err.response\<close>, with its status and body),
  or an error without a response (connection refused, timeout).
\<close>

datatype upstream =
    Resolved json
  | ErrorResponse nat "json option"
  | NoResponse

definition chat :: "(string \<Rightarrow> json \<Rightarrow> upstream) \<Rightarrow> json \<Rightarrow> js_error + json" where
  "chat agentClient_post payload =
     (case agentClient_post ''/api/chat'' payload of
        Resolved d \<Rightarrow> Inr d
      | ErrorResponse st d \<Rightarrow>
          Inl (ApiError st
                 (or_else (opt_prop (opt_prop d ''error'') ''message'') (JStr ''Agent Server error'')))
      | NoResponse \<Rightarrow> Inl (ApiError 502 (JStr ''Agent Server unavailable'')))"

definition getStatus :: "(string \<Rightarrow> upstream) \<Rightarrow> js_error + json" where
  "getStatus agentClient_get =
     (case agentClient_get ''/api/health'' of
        Resolved d \<Rightarrow> Inr d
      | ErrorResponse st d \<Rightarrow> Inl (ApiError 502 (JStr ''Agent Server unavailable''))
      | NoResponse \<Rightarrow> Inl (ApiError 502 (JStr ''Agent Server unavailable'')))"

section \<open>Histories of the store\<close>

text \<open>
  The operations that write the store, and the store after a sequence of them, run from
  the empty store against a clock. A step has no successor when the operation has written
  \<open>Object.prototype\<close>; the history ends before it.
\<close>

datatype operation =
    Create json
  | Append string json
  | Delete string

fun step :: "clock \<Rightarrow> world \<Rightarrow> operation \<Rightarrow> world option" where
  "step clk w (Create data) = Some (snd (create clk data w))"
| "step clk w (Append i msgs) =
     (case ConversationHistory_appendMessages clk i msgs w of
        (Inr (Some (PrototypeCopy i' written now)), w') \<Rightarrow> None
      | (r, w') \<Rightarrow> Some w')"
| "step clk w (Delete i) = Some (snd (deleteById i w))"

fun run_from :: "clock \<Rightarrow> world \<Rightarrow> operation list \<Rightarrow> world" where
  "run_from clk w [] = w"
| "run_from clk w (operation # ops) =
     (case step clk w operation of
        None \<Rightarrow> w
      | Some w' \<Rightarrow> run_from clk w' ops)"

definition run :: "clock \<Rightarrow> operation list \<Rightarrow> world" where
  "run clk ops = run_from clk clearStore ops"

section \<open>Timestamps along a history\<close>

text \<open>Every stored document was last written no later than the latest clock reading, and
  not before it was created.\<close>

definition stamped :: "clock \<Rightarrow> world \<Rightarrow> bool" where
  "stamped clk w =
     (\<forall>(i, d) \<in> set (store w). createdAt d \<le> updatedAt d \<and> updatedAt d \<le> clk (reads w))"

section \<open>Messages as the store returns them\<close>


section \<open>A worked history\<close>

text \<open>One conversation is created with a first message and then receives a reply, five
  seconds later.\<close>

definition example_clock :: clock where
  "example_clock n =
     (if n = 0 then ''2024-01-01T00:00:00.000Z'' else ''2024-01-01T00:00:05.000Z'')"

definition example_data :: json where
  "example_data =
     JObj [(''sessionId'', JStr ''s1''), (''userId'', JStr ''u1''),
           (''messages'', JArr [JObj [(''role'', JStr ''user''), (''content'', JStr ''Hello'')]])]"

definition example_reply :: json where
  "example_reply = JObj [(''role'', JStr ''assistant''), (''content'', JStr ''Hi there!'')]"

definition example_doc :: doc where
  "example_doc =
     \<lparr>sessionId = Some (JStr ''s1''), userId = Some (JStr ''u1''),
      messages = [\<lparr>role = Some (JStr ''user''), content = Some (JStr ''Hello''),
                   timestamp = JStr ''2024-01-01T00:00:00.000Z''\<rparr>],
      metadata = \<lparr>source = JStr ''web'', agentModel = JNull\<rparr>,
      createdAt = ''2024-01-01T00:00:00.000Z'',
      updatedAt = ''2024-01-01T00:00:00.000Z''\<rparr>"

definition example_world :: world where
  "example_world = \<lparr>store = [(''mock-id-1'', example_doc)], idCounter = 1, reads = 1\<rparr>"

definition example_doc' :: doc where
  "example_doc' =
     \<lparr>sessionId = Some (JStr ''s1''), userId = Some (JStr ''u1''),
      messages = [\<lparr>role = Some (JStr ''user''), content = Some (JStr ''Hello''),
                   timestamp = JStr ''2024-01-01T00:00:00.000Z''\<rparr>,
                  \<lparr>role = Some (JStr ''assistant''), content = Some (JStr ''Hi there!''),
                   timestamp = JStr ''2024-01-01T00:00:05.000Z''\<rparr>],
      metadata = \<lparr>source = JStr ''web'', agentModel = JNull\<rparr>,
      createdAt = ''2024-01-01T00:00:00.000Z'',
      updatedAt = ''2024-01-01T00:00:05.000Z''\<rparr>"

definition example_world' :: world where
  "example_world' = \<lparr>store = [(''mock-id-1'', example_doc')], idCounter = 1, reads = 2\<rparr>"





definition example_batch :: json where
  "example_batch =
     JArr [JObj [(''sessionId'', JStr ''s1''), (''userId'', JStr ''user-1''), (''messages'', JArr [])],
           JObj [(''sessionId'', JStr ''s2''), (''userId'', JStr ''user-1''), (''messages'', JArr [])],
           JObj [(''sessionId'', JStr ''s3''), (''userId'', JStr ''user-2''), (''messages'', JArr [])]]"

text \<open>Upstreams of the agent proxy: unreachable, answering 422 with an error message,
  answering 500 without one, and a health probe answered 503.\<close>

definition example_down :: "string \<Rightarrow> json \<Rightarrow> upstream" where
  "example_down path payload = NoResponse"

definition example_rejecting :: "string \<Rightarrow> json \<Rightarrow> upstream" where
  "example_rejecting path payload =
     ErrorResponse 422 (Some (JObj [(''error'', JObj [(''message'', JStr ''Bad input'')])]))"

definition example_failing :: "string \<Rightarrow> json \<Rightarrow> upstream" where
  "example_failing path payload = ErrorResponse 500 (Some (JObj [(''detail'', JStr ''boom'')]))"

definition example_health_down :: "string \<Rightarrow> upstream" where
  "example_health_down path = NoResponse"

definition example_health_503 :: "string \<Rightarrow> upstream" where
  "example_health_503 path =
     ErrorResponse 503 (Some (JObj [(''error'', JObj [(''message'', JStr ''overloaded'')])]))"

text \<open>The query \<open>?userId=user-1&page=abc&limit=0\<close>; a query without \<open>page\<close> whose
  \<open>limit\<close> is a no-break space followed by \<open>7\<close>; and one whose \<open>limit\<close> is \<open>1\<close>
  followed by 309 zeros.\<close>

definition example_query :: query where
  "example_query =
     map_of [(''userId'', QString ''user-1''), (''page'', QString ''abc''), (''limit'', QString ''0'')]"

definition example_query_nbsp :: query where
  "example_query_nbsp =
     map_of [(''userId'', QString ''user-1''), (''limit'', QString [CHR 0xC2, CHR 0xA0, CHR ''7''])]"

definition example_query_huge :: query where
  "example_query_huge =
     map_of [(''userId'', QString ''user-1''),
             (''limit'', QString (CHR ''1'' # replicate 309 (CHR ''0'')))]"

text \<open>A service that returns what it was called with.\<close>

definition example_service ::
  "json option \<Rightarrow> js_number \<Rightarrow> js_number \<Rightarrow> world
     \<Rightarrow> (js_error + json option \<times> js_number \<times> js_number) \<times> world" where
  "example_service uid p l w = (Inr (uid, p, l), w)"

section \<open>Lemmas on the store and the repository\<close>

lemma map_throwing_toMessage:
  "JNull \<notin> set ms \<Longrightarrow> map_throwing (toMessage now) ms = Inr (map (message_of now) ms)"
  by (induction ms) (auto simp: toMessage_def)

lemma set_update_subset: "set (AList.update k v al) \<subseteq> insert (k, v) (set al)"
  by (induction al) auto

lemma set_delete_subset: "set (AList.delete k al) \<subseteq> set al"
  by (induction al) auto

lemma docRef_get_Document:
  "docRef_get i w = Some (Document d) \<longleftrightarrow> map_of (store w) i = Some d"
  by (auto simp: docRef_get_def split: option.splits)

lemma docRef_get_stored: "map_of (store w) i = Some d \<Longrightarrow> docRef_get i w = Some (Document d)"
  by (simp add: docRef_get_Document)

lemma docRef_get_reads [simp]: "docRef_get i (w\<lparr>reads := n\<rparr>) = docRef_get i w"
  by (simp add: docRef_get_def)

lemma create_one_Inl:
  "create_one clk data w = (Inl e, w') \<Longrightarrow> w' = w\<lparr>reads := Suc (reads w)\<rparr>"
  unfolding create_one_def new_Date_def add_def Let_def
  by (simp split: if_splits sum.splits prod.splits)

lemma create_one_Inr:
  assumes "create_one clk data w = (Inr c, w')"
  shows "w' = w\<lparr>reads := Suc (reads w), idCounter := Suc (idCounter w),
                store := AList.update (mock_id (Suc (idCounter w))) (doc_data c) (store w)\<rparr>
       \<and> doc_id c = mock_id (Suc (idCounter w))
       \<and> createdAt (doc_data c) = clk (reads w)
       \<and> updatedAt (doc_data c) = clk (reads w)"
  using assms unfolding create_one_def new_Date_def add_def Let_def
  by (auto split: if_splits sum.splits)

lemma stamped_tick:
  assumes "mono clk" and "stamped clk w"
  shows "stamped clk (w\<lparr>reads := Suc (reads w)\<rparr>)"
proof -
  have "clk (reads w) \<le> clk (Suc (reads w))"
    using assms(1) by (simp add: monoD)
  then show ?thesis
    using assms(2) unfolding stamped_def by (auto intro: order_trans)
qed

lemma stamped_put:
  assumes "stamped clk w" and "createdAt d \<le> updatedAt d" and "updatedAt d \<le> clk (reads w)"
  shows "stamped clk (w\<lparr>store := AList.update i d (store w)\<rparr>)"
  using assms set_update_subset [of i d "store w"] unfolding stamped_def by auto

lemma stamped_idCounter [simp]: "stamped clk (w\<lparr>idCounter := n\<rparr>) = stamped clk w"
  by (simp add: stamped_def)

lemma stamped_create_one:
  assumes "mono clk" and "stamped clk w"
  shows "stamped clk (snd (create_one clk data w))"
proof (cases "create_one clk data w")
  case (Pair r w')
  show ?thesis
  proof (cases r)
    case (Inl e)
    with Pair have "w' = w\<lparr>reads := Suc (reads w)\<rparr>" by (simp add: create_one_Inl)
    with Pair show ?thesis using stamped_tick [OF assms] by simp
  next
    case (Inr c)
    with Pair have c: "w' = w\<lparr>reads := Suc (reads w), idCounter := Suc (idCounter w),
                store := AList.update (mock_id (Suc (idCounter w))) (doc_data c) (store w)\<rparr>"
      "createdAt (doc_data c) = clk (reads w)" "updatedAt (doc_data c) = clk (reads w)"
      using create_one_Inr [of clk data w c w'] by simp_all
    have le: "clk (reads w) \<le> clk (Suc (reads w))"
      using assms(1) by (simp add: monoD)
    have "stamped clk ((w\<lparr>reads := Suc (reads w)\<rparr>)\<lparr>store :=
            AList.update (mock_id (Suc (idCounter w))) (doc_data c) (store (w\<lparr>reads := Suc (reads w)\<rparr>))\<rparr>)"
      by (rule stamped_put [OF stamped_tick [OF assms]]) (simp_all add: c le)
    then have "stamped clk w'"
      by (simp add: c stamped_def)
    with Pair show ?thesis by simp
  qed
qed

lemma snd_case_result:
  "snd (case p of (Inl e, w') \<Rightarrow> (Inl e, w') | (Inr c, w') \<Rightarrow> (Inr (f c), w')) = snd p"
  by (cases p; cases "fst p") auto

lemma stamped_create:
  "mono clk \<Longrightarrow> stamped clk w \<Longrightarrow> stamped clk (snd (create clk data w))"
  "mono clk \<Longrightarrow> stamped clk w \<Longrightarrow> stamped clk (snd (create_items clk items w))"
proof (induction clk data w and clk items w rule: create_create_items.induct)
  case (1 clk items w)
  then show ?case by (simp add: snd_case_result)
next
  case (4 clk item items w)
  show ?case
  proof (cases "create clk item w")
    case (Pair r w')
    have w': "stamped clk w'" using 4(1) [OF 4(3,4)] Pair by simp
    show ?thesis
    proof (cases r)
      case (Inl e)
      with Pair w' show ?thesis by simp
    next
      case (Inr x)
      have "stamped clk (snd (create_items clk items w'))"
        using 4(2) [OF Pair [symmetric] Inr 4(3) w'] .
      with Pair Inr show ?thesis by (simp add: snd_case_result)
    qed
  qed
qed (simp_all add: snd_case_result stamped_create_one)

lemma append_existing:
  assumes "docRef_get i w = Some (Document d)" and "JNull \<notin> set ms"
  shows "ConversationHistory_appendMessages clk i (JArr ms) w =
     (Inr (Some (Stored \<lparr>doc_id = i,
                  doc_data = d\<lparr>messages := messages d @ map (message_of (clk (reads w))) ms,
                               updatedAt := clk (reads w)\<rparr>\<rparr>)),
      w\<lparr>reads := Suc (reads w),
        store := AList.update i
                   (d\<lparr>messages := messages d @ map (message_of (clk (reads w))) ms,
                      updatedAt := clk (reads w)\<rparr>) (store w)\<rparr>)"
proof -
  have m: "map_of (store w) i = Some d"
    using assms(1) by (simp add: docRef_get_Document)
  let ?d = "d\<lparr>messages := messages d @ map (message_of (clk (reads w))) ms,
                updatedAt := clk (reads w)\<rparr>"
  let ?w2 = "w\<lparr>reads := Suc (reads w), store := AList.update i ?d (store w)\<rparr>"
  have u: "docRef_update i (map (message_of (clk (reads w))) ms) (clk (reads w))
             (w\<lparr>reads := Suc (reads w)\<rparr>) = Inr (Updated ?w2)"
    using assms(1) by (simp add: docRef_update_def)
  have "docRef_get i ?w2 = Some (Document ?d)"
    by (rule docRef_get_stored) (simp add: update_conv')
  then have f: "findById i ?w2 = Inr (Some (Stored \<lparr>doc_id = i, doc_data = ?d\<rparr>))"
    by (simp add: findById_def)
  show ?thesis
    using assms(1)
    by (simp add: ConversationHistory_appendMessages_def new_Date_def
        map_throwing_toMessage [OF assms(2)] u f)
qed

lemma append_missing:
  "docRef_get i w = None \<Longrightarrow> ConversationHistory_appendMessages clk i msgs w = (Inr None, w)"
  by (simp add: ConversationHistory_appendMessages_def)

lemma append_world:
  "snd (ConversationHistory_appendMessages clk i msgs w) = w
   \<or> snd (ConversationHistory_appendMessages clk i msgs w) = w\<lparr>reads := Suc (reads w)\<rparr>
   \<or> (\<exists>d new. map_of (store w) i = Some d
         \<and> snd (ConversationHistory_appendMessages clk i msgs w) =
             w\<lparr>reads := Suc (reads w),
               store := AList.update i (d\<lparr>messages := messages d @ new, updatedAt := clk (reads w)\<rparr>)
                          (store w)\<rparr>)"
proof (cases "docRef_get i w")
  case None
  then show ?thesis by (simp add: append_missing)
next
  case (Some found)
  show ?thesis
  proof (cases "map_messages (clk (reads w)) msgs")
    case (Inl e)
    with Some show ?thesis
      by (simp add: ConversationHistory_appendMessages_def new_Date_def)
  next
    case (Inr new)
    show ?thesis
    proof (cases found)
      case (Document d)
      with Some have m: "map_of (store w) i = Some d" by (simp add: docRef_get_Document)
      from Some Document Inr
      have "snd (ConversationHistory_appendMessages clk i msgs w) =
             w\<lparr>reads := Suc (reads w),
               store := AList.update i (d\<lparr>messages := messages d @ new, updatedAt := clk (reads w)\<rparr>)
                          (store w)\<rparr>"
        by (simp add: ConversationHistory_appendMessages_def new_Date_def docRef_update_def)
      with m show ?thesis by blast
    next
      case (Inherited h)
      with Some Inr show ?thesis
        by (cases h)
          (simp_all add: ConversationHistory_appendMessages_def new_Date_def docRef_update_def)
    qed
  qed
qed

lemma stamped_append:
  assumes "mono clk" and "stamped clk w"
  shows "stamped clk (snd (ConversationHistory_appendMessages clk i msgs w))"
proof -
  have le: "clk (reads w) \<le> clk (Suc (reads w))"
    using assms(1) by (simp add: monoD)
  from append_world [of clk i msgs w] show ?thesis
  proof (elim disjE exE conjE)
    assume "snd (ConversationHistory_appendMessages clk i msgs w) = w"
    then show ?thesis using assms(2) by simp
  next
    assume "snd (ConversationHistory_appendMessages clk i msgs w) = w\<lparr>reads := Suc (reads w)\<rparr>"
    then show ?thesis using stamped_tick [OF assms] by simp
  next
    fix d new
    assume m: "map_of (store w) i = Some d"
      and eq: "snd (ConversationHistory_appendMessages clk i msgs w) =
             w\<lparr>reads := Suc (reads w),
               store := AList.update i (d\<lparr>messages := messages d @ new, updatedAt := clk (reads w)\<rparr>)
                          (store w)\<rparr>"
    have mem: "(i, d) \<in> set (store w)"
      using m by (simp add: map_of_SomeD)
    have old: "createdAt d \<le> updatedAt d" "updatedAt d \<le> clk (reads w)"
      using assms(2) mem unfolding stamped_def by auto
    have "stamped clk ((w\<lparr>reads := Suc (reads w)\<rparr>)\<lparr>store :=
            AList.update i (d\<lparr>messages := messages d @ new, updatedAt := clk (reads w)\<rparr>)
              (store (w\<lparr>reads := Suc (reads w)\<rparr>))\<rparr>)"
      by (rule stamped_put [OF stamped_tick [OF assms]])
         (use old le in \<open>auto intro: order_trans\<close>)
    then show ?thesis by (simp add: eq)
  qed
qed

lemma deleteById_world:
  "snd (deleteById i w) = w \<or> snd (deleteById i w) = docRef_delete i w"
  by (simp add: deleteById_def split: option.splits sum.splits)

lemma stamped_docRef_delete: "stamped clk w \<Longrightarrow> stamped clk (docRef_delete i w)"
  using set_delete_subset [of i "store w"]
  unfolding docRef_delete_def stamped_def by auto

lemma stamped_delete: "stamped clk w \<Longrightarrow> stamped clk (snd (deleteById i w))"
  using deleteById_world [of i w] by (auto simp: stamped_docRef_delete)

lemma stamped_step:
  "mono clk \<Longrightarrow> stamped clk w \<Longrightarrow> step clk w operation = Some w' \<Longrightarrow> stamped clk w'"
proof (cases operation)
  case (Append i msgs)
  assume a: "mono clk" "stamped clk w" "step clk w operation = Some w'"
  from a(3) Append have "w' = snd (ConversationHistory_appendMessages clk i msgs w)"
    by (auto split: prod.splits sum.splits option.splits returned.splits)
  with a(1,2) show ?thesis by (simp add: stamped_append)
qed (auto simp: stamped_create stamped_delete)

lemma stamped_run_from:
  "mono clk \<Longrightarrow> stamped clk w \<Longrightarrow> stamped clk (run_from clk w ops)"
proof (induction ops arbitrary: w)
  case Nil
  then show ?case by simp
next
  case (Cons operation ops)
  show ?case
  proof (cases "step clk w operation")
    case None
    with Cons.prems show ?thesis by simp
  next
    case (Some w')
    with Cons.prems have "stamped clk w'" by (blast intro: stamped_step)
    with Cons Some show ?thesis by simp
  qed
qed

lemma stamped_run: "mono clk \<Longrightarrow> stamped clk (run clk ops)"
  unfolding run_def by (rule stamped_run_from) (simp_all add: stamped_def clearStore_def)

lemma append_result:
  assumes "docRef_get i w = Some (Document d)"
    and "ConversationHistory_appendMessages clk i msgs w = (Inr (Some (Stored c)), w')"
  shows "\<exists>new. doc_data c = d\<lparr>messages := messages d @ new, updatedAt := clk (reads w)\<rparr>"
proof (cases "map_messages (clk (reads w)) msgs")
  case (Inl e)
  with assms show ?thesis
    by (simp add: ConversationHistory_appendMessages_def new_Date_def)
next
  case (Inr new)
  let ?d = "d\<lparr>messages := messages d @ new, updatedAt := clk (reads w)\<rparr>"
  let ?w2 = "w\<lparr>reads := Suc (reads w), store := AList.update i ?d (store w)\<rparr>"
  have "docRef_get i ?w2 = Some (Document ?d)"
    by (rule docRef_get_stored) (simp add: update_conv')
  then have f: "findById i ?w2 = Inr (Some (Stored \<lparr>doc_id = i, doc_data = ?d\<rparr>))"
    by (simp add: findById_def)
  from assms Inr have "findById i ?w2 = Inr (Some (Stored c))"
    by (auto simp: ConversationHistory_appendMessages_def new_Date_def docRef_update_def)
  with f have "c = \<lparr>doc_id = i, doc_data = ?d\<rparr>" by simp
  then show ?thesis by (intro exI [of _ new]) simp
qed

lemma mono_example_clock: "mono example_clock"
  by (simp add: mono_def example_clock_def)

lemma run_example: "run example_clock [Create example_data] = example_world"
  by code_simp

section \<open>Lemmas on the query\<close>


lemma mset_insert_by: "mset (insert_by cmp x xs) = add_mset x (mset xs)"
  by (induction xs) simp_all

lemma mset_sort_by: "mset (sort_by cmp xs) = mset xs"
  unfolding sort_by_def by (induction xs) (simp_all add: mset_insert_by)

lemma set_insert_by: "set (insert_by cmp x xs) = insert x (set xs)"
  by (induction xs) auto

lemma compare_docs_Desc: "compare_docs Desc a b \<le> 0 \<longleftrightarrow> updatedAt (snd b) \<le> updatedAt (snd a)"
  by (auto simp: compare_docs_def Let_def)

lemma sorted_insert_by_Desc:
  "sorted_wrt (\<lambda>a b. updatedAt (snd b) \<le> updatedAt (snd a)) xs \<Longrightarrow>
   sorted_wrt (\<lambda>a b. updatedAt (snd b) \<le> updatedAt (snd a)) (insert_by (compare_docs Desc) x xs)"
proof (induction xs)
  case Nil
  then show ?case by simp
next
  case (Cons y ys)
  show ?case
  proof (cases "compare_docs Desc x y \<le> 0")
    case True
    then have "updatedAt (snd y) \<le> updatedAt (snd x)" by (simp add: compare_docs_Desc)
    with Cons.prems True show ?thesis by (auto intro: order_trans)
  next
    case False
    then have "updatedAt (snd x) \<le> updatedAt (snd y)" by (simp add: compare_docs_Desc)
    with Cons False show ?thesis by (auto simp: set_insert_by)
  qed
qed

lemma sorted_sort_by_Desc:
  "sorted_wrt (\<lambda>a b. updatedAt (snd b) \<le> updatedAt (snd a)) (sort_by (compare_docs Desc) xs)"
  unfolding sort_by_def by (induction xs) (simp_all add: sorted_insert_by_Desc)

lemma slice_window:
  assumes "0 \<le> a" and "0 \<le> b"
  shows "slice xs a (Some (a + b)) = take (nat b) (drop (nat a) xs)"
proof (cases "a \<le> int (length xs)")
  case True
  have "take (nat (min (a + b) (int (length xs)) - a)) (drop (nat a) xs) = take (nat b) (drop (nat a) xs)"
  proof (cases "a + b \<le> int (length xs)")
    case True
    then show ?thesis by (simp add: min_def)
  next
    case False
    with True assms have "length (drop (nat a) xs) \<le> nat (int (length xs) - a)"
      and "length (drop (nat a) xs) \<le> nat b" by auto
    with False show ?thesis by (simp add: min_def)
  qed
  with True assms show ?thesis by (simp add: slice_def Let_def min_def)
next
  case False
  with assms show ?thesis by (simp add: slice_def Let_def min_def)
qed

lemma getFilteredDocs_owner:
  "getFilteredDocs (where_userId uid collection) w = filter (\<lambda>d. strict_eq (userId (snd d)) uid) (store w)"
  by (simp add: getFilteredDocs_def where_userId_def collection_def)

lemma findByUserId_eq:
  assumes "1 \<le> p" and "1 \<le> l"
  shows "findByUserId uid (Some p) (Some l) w =
     (map (\<lambda>(i, d). \<lparr>doc_id = i, doc_data = d\<rparr>)
        (take (nat l) (drop (nat ((p - 1) * l))
           (sort_by (compare_docs Desc) (filter (\<lambda>d. strict_eq (userId (snd d)) uid) (store w))))),
      length (filter (\<lambda>d. strict_eq (userId (snd d)) uid) (store w)))"
proof -
  have "0 \<le> (p - 1) * l" using assms by simp
  moreover have "0 \<le> l" using assms by simp
  ultimately show ?thesis
    by (simp add: findByUserId_def default_to_def MockQuery_get_def MockQuery_count_def
        query_limit_def query_offset_def orderBy_updatedAt_def getFilteredDocs_def
        where_userId_def collection_def slice_window)
qed

lemma strict_eq_eq: "strict_eq a b \<Longrightarrow> a = b"
  by (induction a b rule: strict_eq.induct) simp_all

lemma ceil_pages:
  assumes "1 \<le> l"
  shows "int n \<le> \<lceil>real n / real_of_int l\<rceil> * l" and "(\<lceil>real n / real_of_int l\<rceil> - 1) * l < int n"
proof -
  have pos: "0 < real_of_int l" using assms by simp
  have "real n \<le> of_int \<lceil>real n / real_of_int l\<rceil> * real_of_int l"
    by (rule ceiling_divide_upper [OF pos])
  then have "real_of_int (int n) \<le> real_of_int (\<lceil>real n / real_of_int l\<rceil> * l)" by simp
  then show "int n \<le> \<lceil>real n / real_of_int l\<rceil> * l" by (simp only: of_int_le_iff)
  have "(of_int \<lceil>real n / real_of_int l\<rceil> - 1) * real_of_int l < real n"
    by (rule ceiling_divide_lower [OF pos])
  then have "real_of_int ((\<lceil>real n / real_of_int l\<rceil> - 1) * l) < real_of_int (int n)" by simp
  then show "(\<lceil>real n / real_of_int l\<rceil> - 1) * l < int n" by (simp only: of_int_less_iff)
qed

section \<open>Lemmas on creation\<close>









section \<open>Lemmas on the missing conversation\<close>

lemma docRef_get_None:
  "docRef_get i w = None \<longleftrightarrow>
     map_of (store w) i = None \<and> (idCounter w = 0 \<or> inherited_property i = None)"
  by (auto simp: docRef_get_def split: option.splits)

lemma appendMessages_absent:
  "docRef_get i w = None \<Longrightarrow>
     appendMessages clk i msgs w = (Inl (ApiError 404 (JStr ''Conversation not found'')), w)"
  by (simp add: appendMessages_def append_missing notFound_def)

text \<open>\<open>PUT /history/constructor\<close> on a store that holds a conversation.\<close>

lemma update_inherited_id:
  "status (respond (fst (historyController_update (appendMessages example_clock) ''constructor''
      (JObj [(''messages'', JArr [example_reply])]) example_world))) = 500"
  by code_simp

section \<open>Lemmas on listing\<close>

lemma findByUserId_page1:
  assumes "1 \<le> p" and "1 \<le> l"
  shows "fst (findByUserId uid (Some p) (Some l) w) =
     map (\<lambda>(i, d). \<lparr>doc_id = i, doc_data = d\<rparr>)
        (take (nat l) (drop (nat ((p - 1) * l))
           (sort_by (compare_docs Desc) (filter (\<lambda>d. strict_eq (userId (snd d)) uid) (store w)))))"
    and "snd (findByUserId uid (Some p) (Some l) w) =
      length (filter (\<lambda>d. strict_eq (userId (snd d)) uid) (store w))"
  by (simp_all add: findByUserId_eq [OF assms])

lemma Math_ceil_div_finite: "l \<noteq> 0 \<Longrightarrow> \<exists>k. Math_ceil_div n l = Num k"
  by (simp add: Math_ceil_div_def)

text \<open>The white space of a string is all skipped: no string has more white space
  characters than bytes.\<close>

lemma leading_space_le: "leading_space s \<le> length s"
proof (cases "List.find (\<lambda>p. take (length p) s = p) white_space")
  case None
  then show ?thesis by (simp add: leading_space_def)
next
  case (Some p)
  then have "take (length p) s = p" by (auto simp: find_Some_iff)
  then have "length (take (length p) s) = length p" by simp
  then have "length p \<le> length s" by simp
  with Some show ?thesis by (simp add: leading_space_def)
qed

lemma skip_spaces_done: "length s \<le> n \<Longrightarrow> leading_space (skip_spaces n s) = 0"
proof (induction n arbitrary: s)
  case 0
  then show ?case using leading_space_le [of s] by simp
next
  case (Suc n)
  show ?case
  proof (cases "leading_space s = 0")
    case True
    then show ?thesis by simp
  next
    case False
    with Suc.prems have "length (drop (leading_space s) s) \<le> n" by simp
    with False show ?thesis by (simp add: Suc.IH)
  qed
qed

lemma trim_start_done: "leading_space (trim_start s) = 0"
  by (simp add: trim_start_def skip_spaces_done)

lemma to_Number_not_NaN: "to_Number n \<noteq> NaN"
  by (simp add: to_Number_def Let_def)

lemma parseInt_NaN:
  "parseInt s = NaN \<longleftrightarrow>
     takeWhile is_digit
       (if trim_start s \<noteq> [] \<and> (hd (trim_start s) = CHR ''-'' \<or> hd (trim_start s) = CHR ''+'')
        then tl (trim_start s) else trim_start s) = []"
  by (simp add: parseInt_def Let_def to_Number_not_NaN)

lemma parseInt_undefined: "parseInt ''undefined'' = NaN"
  by code_simp

lemma parseInt_param_absent: "parseInt_param None = NaN"
  by (simp add: parseInt_param_def parseInt_undefined)

lemma number_or_eq: "number_or n d = (if n = NaN \<or> n = Num 0 then Num d else n)"
  by (cases n) simp_all

lemma parseInt_examples:
  "parseInt [CHR 0xC2, CHR 0xA0, CHR ''7''] = Num 7"
  "parseInt ''9007199254740993'' = Num 9007199254740992"
  "parseInt ''-0'' = Num 0"
  "parseInt ''12abc'' = Num 12"
  "parseInt (CHR ''1'' # replicate 309 (CHR ''0'')) = Infinity"
  by code_simp+

section \<open>Appending messages\<close>

text \<open>
  C1: appending to an existing conversation concatenates the new messages to the stored
  ones, duplicates included, so the message count grows by exactly the number appended;
  \<open>updatedAt\<close> becomes the current clock reading, which is not before the previous
  \<open>updatedAt\<close>. The conversation is any one stored after a history of operations, the
  messages are any values but \<open>null\<close>, and the clock never runs backwards.
\<close>

theorem appendMessages_appends:
  assumes "mono clk"
    and "docRef_get i (run clk ops) = Some (Document d)"
    and "JNull \<notin> set ms"
  shows "\<exists>c w'. ConversationHistory_appendMessages clk i (JArr ms) (run clk ops)
                   = (Inr (Some (Stored c)), w')
          \<and> doc_id c = i
          \<and> messages (doc_data c) = messages d @ map (message_of (clk (reads (run clk ops)))) ms
          \<and> length (messages (doc_data c)) = length (messages d) + length ms
          \<and> updatedAt (doc_data c) = clk (reads (run clk ops))
          \<and> updatedAt d \<le> updatedAt (doc_data c)
          \<and> docRef_get i w' = Some (Document (doc_data c))"
proof -
  have "(i, d) \<in> set (store (run clk ops))"
    using assms(2) by (simp add: docRef_get_Document map_of_SomeD)
  then have "updatedAt d \<le> clk (reads (run clk ops))"
    using stamped_run [OF assms(1), of ops] unfolding stamped_def by auto
  then show ?thesis
    by (simp add: append_existing [OF assms(2,3)] docRef_get_Document update_conv')
qed

theorem appendMessages_appends_witness:
  "mono example_clock
   \<and> docRef_get ''mock-id-1'' (run example_clock [Create example_data]) = Some (Document example_doc)
   \<and> JNull \<notin> set [example_reply]
   \<and> (\<exists>c w'. ConversationHistory_appendMessages example_clock ''mock-id-1'' (JArr [example_reply])
                 (run example_clock [Create example_data]) = (Inr (Some (Stored c)), w')
          \<and> doc_id c = ''mock-id-1''
          \<and> messages (doc_data c) = messages example_doc
               @ map (message_of (example_clock (reads (run example_clock [Create example_data])))) [example_reply]
          \<and> length (messages (doc_data c)) = length (messages example_doc) + length [example_reply]
          \<and> updatedAt (doc_data c) = example_clock (reads (run example_clock [Create example_data]))
          \<and> updatedAt example_doc \<le> updatedAt (doc_data c)
          \<and> docRef_get ''mock-id-1'' w' = Some (Document (doc_data c)))"
proof -
  have h1: "mono example_clock" by (rule mono_example_clock)
  have h2: "docRef_get ''mock-id-1'' (run example_clock [Create example_data]) = Some (Document example_doc)"
    by (simp add: run_example docRef_get_def example_world_def)
  have h3: "JNull \<notin> set [example_reply]" by (simp add: example_reply_def)
  show ?thesis
    by (rule conjI [OF h1 conjI [OF h2 conjI [OF h3 appendMessages_appends [OF h1 h2 h3]]]])
qed

text \<open>
  C5: once a conversation has been created, the store finds something under an id that
  names no conversation but a property every object inherits. For the id
  \<open>constructor\<close> the service's \<open>appendMessages\<close> does not throw the 404 error
  \<open>Conversation not found\<close>: it reads the clock and throws a \<open>SyntaxError\<close>, which the
  error boundary answers with status 500. For the id \<open>__proto__\<close> it returns an object
  made of the id, the messages and the clock reading, after writing both to
  \<open>Object.prototype\<close>. On the empty store, and for an id under which the store finds
  nothing, the error is the 404 one and the store is as before.
\<close>

theorem appendMessages_inherited_id:
  "map_of (store example_world) ''constructor'' = None
   \<and> map_of (store example_world) ''__proto__'' = None
   \<and> appendMessages example_clock ''constructor'' (JArr [example_reply]) example_world
        = (Inl SyntaxError, \<lparr>store = [(''mock-id-1'', example_doc)], idCounter = 1, reads = 2\<rparr>)
   \<and> status (errorHandler SyntaxError :: returned response) = 500
   \<and> appendMessages example_clock ''__proto__'' (JArr [example_reply]) example_world
        = (Inr (PrototypeCopy ''__proto__''
                  [\<lparr>role = Some (JStr ''assistant''), content = Some (JStr ''Hi there!''),
                    timestamp = JStr ''2024-01-01T00:00:05.000Z''\<rparr>]
                  ''2024-01-01T00:00:05.000Z''),
           \<lparr>store = [(''mock-id-1'', example_doc)], idCounter = 1, reads = 2\<rparr>)
   \<and> appendMessages example_clock ''constructor'' (JArr [example_reply]) clearStore
        = (Inl (ApiError 404 (JStr ''Conversation not found'')), clearStore)
   \<and> appendMessages example_clock ''nonexistent-id'' (JArr [example_reply]) example_world
        = (Inl (ApiError 404 (JStr ''Conversation not found'')), example_world)"
  by code_simp

section \<open>The order of the two timestamps\<close>

text \<open>
  C8: under a clock that never runs backwards, every conversation stored after any
  sequence of create, append and delete operations has \<open>createdAt \<le> updatedAt\<close>. A
  creation sets both timestamps to the one clock reading it takes; an append sets
  \<open>updatedAt\<close> to its clock reading and leaves \<open>createdAt\<close> as it was.
\<close>

theorem updatedAt_not_before_createdAt:
  assumes "mono clk"
  shows "((i, d) \<in> set (store (run clk ops)) \<longrightarrow> createdAt d \<le> updatedAt d)
       \<and> (create_one clk data w = (Inr c, w') \<longrightarrow>
            createdAt (doc_data c) = clk (reads w) \<and> updatedAt (doc_data c) = clk (reads w))
       \<and> (docRef_get j v = Some (Document e)
            \<and> ConversationHistory_appendMessages clk j msgs v = (Inr (Some (Stored c')), v') \<longrightarrow>
            createdAt (doc_data c') = createdAt e \<and> updatedAt (doc_data c') = clk (reads v))"
proof (intro conjI impI)
  assume "(i, d) \<in> set (store (run clk ops))"
  then show "createdAt d \<le> updatedAt d"
    using stamped_run [OF assms, of ops] unfolding stamped_def by auto
next
  assume "create_one clk data w = (Inr c, w')"
  then show "createdAt (doc_data c) = clk (reads w)" and "updatedAt (doc_data c) = clk (reads w)"
    using create_one_Inr [of clk data w c w'] by simp_all
next
  assume a: "docRef_get j v = Some (Document e)
     \<and> ConversationHistory_appendMessages clk j msgs v = (Inr (Some (Stored c')), v')"
  then obtain new where "doc_data c' = e\<lparr>messages := messages e @ new, updatedAt := clk (reads v)\<rparr>"
    using append_result [of j v e clk msgs c' v'] by blast
  then show "createdAt (doc_data c') = createdAt e" and "updatedAt (doc_data c') = clk (reads v)"
    by simp_all
qed

theorem updatedAt_not_before_createdAt_witness:
  "mono example_clock
   \<and> (''mock-id-1'', example_doc')
        \<in> set (store (run example_clock [Create example_data, Append ''mock-id-1'' (JArr [example_reply])]))
   \<and> createdAt example_doc' \<le> updatedAt example_doc'
   \<and> create_one example_clock example_data clearStore
        = (Inr \<lparr>doc_id = ''mock-id-1'', doc_data = example_doc\<rparr>, example_world)
   \<and> createdAt (doc_data \<lparr>doc_id = ''mock-id-1'', doc_data = example_doc\<rparr>) = example_clock (reads clearStore)
   \<and> updatedAt (doc_data \<lparr>doc_id = ''mock-id-1'', doc_data = example_doc\<rparr>) = example_clock (reads clearStore)
   \<and> docRef_get ''mock-id-1'' example_world = Some (Document example_doc)
   \<and> ConversationHistory_appendMessages example_clock ''mock-id-1'' (JArr [example_reply]) example_world
        = (Inr (Some (Stored \<lparr>doc_id = ''mock-id-1'', doc_data = example_doc'\<rparr>)), example_world')
   \<and> createdAt (doc_data \<lparr>doc_id = ''mock-id-1'', doc_data = example_doc'\<rparr>) = createdAt example_doc
   \<and> updatedAt (doc_data \<lparr>doc_id = ''mock-id-1'', doc_data = example_doc'\<rparr>) = example_clock (reads example_world)"
proof -
  have h1: "mono example_clock" by (rule mono_example_clock)
  have h2: "(''mock-id-1'', example_doc')
        \<in> set (store (run example_clock [Create example_data, Append ''mock-id-1'' (JArr [example_reply])]))"
    by code_simp
  have h3: "create_one example_clock example_data clearStore
        = (Inr \<lparr>doc_id = ''mock-id-1'', doc_data = example_doc\<rparr>, example_world)"
    by code_simp
  have h4: "docRef_get ''mock-id-1'' example_world = Some (Document example_doc)"
    by code_simp
  have h5: "ConversationHistory_appendMessages example_clock ''mock-id-1'' (JArr [example_reply]) example_world
        = (Inr (Some (Stored \<lparr>doc_id = ''mock-id-1'', doc_data = example_doc'\<rparr>)), example_world')"
    by code_simp
  note t = updatedAt_not_before_createdAt [OF h1, of "''mock-id-1''" example_doc'
      "[Create example_data, Append ''mock-id-1'' (JArr [example_reply])]"
      example_data clearStore "\<lparr>doc_id = ''mock-id-1'', doc_data = example_doc\<rparr>" example_world
      "''mock-id-1''" example_world example_doc "JArr [example_reply]"
      "\<lparr>doc_id = ''mock-id-1'', doc_data = example_doc'\<rparr>" example_world']
  show ?thesis using h1 h2 h3 h4 h5 t by blast
qed

section \<open>Creating a conversation\<close>



section \<open>The fields of a stored message\<close>




section \<open>Listing\<close>

text \<open>
  C3: for \<open>page \<ge> 1\<close> and \<open>limit \<ge> 1\<close>, \<open>findByUserId\<close> returns the window of
  \<open>limit\<close> records that follows the first \<open>(page - 1) * limit\<close> ones in the list of the
  owner's documents ordered by \<open>updatedAt\<close> descending. That list is a rearrangement of
  the stored documents whose \<open>userId\<close> is strictly equal to the requested one; every
  record returned is a stored document of the requested owner; the records returned are
  in descending order of \<open>updatedAt\<close> and at most \<open>limit\<close>; the total is the number of
  the owner's documents.
\<close>

theorem findByUserId_scoped_ordered_paged:
  assumes "1 \<le> p" and "1 \<le> l"
  shows "let owned = filter (\<lambda>d. strict_eq (userId (snd d)) uid) (store w);
             ordered = sort_by (compare_docs Desc) owned;
             found = fst (findByUserId uid (Some p) (Some l) w)
         in found = map (\<lambda>(i, d). \<lparr>doc_id = i, doc_data = d\<rparr>)
                      (take (nat l) (drop (nat ((p - 1) * l)) ordered))
          \<and> mset ordered = mset owned
          \<and> sorted_wrt (\<lambda>a b. updatedAt (snd b) \<le> updatedAt (snd a)) ordered
          \<and> list_all (\<lambda>c. userId (doc_data c) = uid \<and> (doc_id c, doc_data c) \<in> set (store w)) found
          \<and> sorted_wrt (\<lambda>a b. updatedAt (doc_data b) \<le> updatedAt (doc_data a)) found
          \<and> length found \<le> nat l
          \<and> snd (findByUserId uid (Some p) (Some l) w) = length owned"
proof -
  define owned where "owned = filter (\<lambda>d. strict_eq (userId (snd d)) uid) (store w)"
  define ordered where "ordered = sort_by (compare_docs Desc) owned"
  define window where "window = take (nat l) (drop (nat ((p - 1) * l)) ordered)"
  define found where "found = fst (findByUserId uid (Some p) (Some l) w)"
  have found: "found = map (\<lambda>(i, d). \<lparr>doc_id = i, doc_data = d\<rparr>) window"
    unfolding found_def window_def ordered_def owned_def
    by (rule findByUserId_page1(1) [OF assms])
  have perm: "mset ordered = mset owned"
    unfolding ordered_def by (rule mset_sort_by)
  have sorted: "sorted_wrt (\<lambda>a b. updatedAt (snd b) \<le> updatedAt (snd a)) ordered"
    unfolding ordered_def by (rule sorted_sort_by_Desc)
  have "set window \<subseteq> set ordered"
    unfolding window_def by (meson order_trans set_drop_subset set_take_subset)
  also have "set ordered = set owned"
    using perm by (rule mset_eq_setD)
  finally have sub: "set window \<subseteq> set owned" .
  have "userId (snd x) = uid \<and> x \<in> set (store w)" if "x \<in> set window" for x
  proof -
    from that sub have "x \<in> set owned" by blast
    then show ?thesis unfolding owned_def by (simp add: strict_eq_eq)
  qed
  then have scoped: "list_all (\<lambda>c. userId (doc_data c) = uid \<and> (doc_id c, doc_data c) \<in> set (store w)) found"
    unfolding found by (auto simp: list_all_iff)
  have "sorted_wrt (\<lambda>a b. updatedAt (snd b) \<le> updatedAt (snd a)) window"
    unfolding window_def by (intro sorted_wrt_take sorted_wrt_drop sorted)
  then have sorted_found: "sorted_wrt (\<lambda>a b. updatedAt (doc_data b) \<le> updatedAt (doc_data a)) found"
    unfolding found by (simp add: sorted_wrt_map case_prod_unfold)
  have len: "length found \<le> nat l"
    unfolding found window_def by simp
  have tot: "snd (findByUserId uid (Some p) (Some l) w) = length owned"
    unfolding owned_def by (rule findByUserId_page1(2) [OF assms])
  show ?thesis
    using found perm sorted scoped sorted_found len tot
    unfolding Let_def found_def window_def ordered_def owned_def by blast
qed

theorem findByUserId_scoped_ordered_paged_witness:
  "(1::int) \<le> 2 \<and> (1::int) \<le> 1
   \<and> (let owned = filter (\<lambda>d. strict_eq (userId (snd d)) (Some (JStr ''user-1'')))
                     (store (run example_clock [Create example_batch]));
           ordered = sort_by (compare_docs Desc) owned;
           found = fst (findByUserId (Some (JStr ''user-1'')) (Some 2) (Some 1)
                          (run example_clock [Create example_batch]))
       in found = map (\<lambda>(i, d). \<lparr>doc_id = i, doc_data = d\<rparr>)
                    (take (nat 1) (drop (nat ((2 - 1) * 1)) ordered))
        \<and> mset ordered = mset owned
        \<and> sorted_wrt (\<lambda>a b. updatedAt (snd b) \<le> updatedAt (snd a)) ordered
        \<and> list_all (\<lambda>c. userId (doc_data c) = Some (JStr ''user-1'')
                       \<and> (doc_id c, doc_data c) \<in> set (store (run example_clock [Create example_batch])))
             found
        \<and> sorted_wrt (\<lambda>a b. updatedAt (doc_data b) \<le> updatedAt (doc_data a)) found
        \<and> length found \<le> nat 1
        \<and> snd (findByUserId (Some (JStr ''user-1'')) (Some 2) (Some 1)
                 (run example_clock [Create example_batch])) = length owned)
   \<and> map doc_id (fst (findByUserId (Some (JStr ''user-1'')) (Some 1) (Some 1)
                        (run example_clock [Create example_batch]))) = [''mock-id-2'']
   \<and> map doc_id (fst (findByUserId (Some (JStr ''user-1'')) (Some 2) (Some 1)
                        (run example_clock [Create example_batch]))) = [''mock-id-1'']"
proof -
  have h1: "(1::int) \<le> 2" and h2: "(1::int) \<le> 1" by simp_all
  have e1: "map doc_id (fst (findByUserId (Some (JStr ''user-1'')) (Some 1) (Some 1)
                        (run example_clock [Create example_batch]))) = [''mock-id-2'']"
    by code_simp
  have e2: "map doc_id (fst (findByUserId (Some (JStr ''user-1'')) (Some 2) (Some 1)
                        (run example_clock [Create example_batch]))) = [''mock-id-1'']"
    by code_simp
  show ?thesis
    by (rule conjI [OF h1 conjI [OF h2 conjI [OF
          findByUserId_scoped_ordered_paged [OF h1 h2, of "Some (JStr ''user-1'')"
            "run example_clock [Create example_batch]"] conjI [OF e1 e2]]]])
qed

text \<open>
  C2: for \<open>page \<ge> 1\<close> and \<open>limit \<ge> 1\<close>, \<open>listConversations\<close> reports
  \<open>pages = \<lceil>total / limit\<rceil>\<close>, the least number of pages of \<open>limit\<close> records that
  hold \<open>total\<close> records, where \<open>total\<close> is the number of stored documents of the owner,
  whatever the page and the limit; it returns at most \<open>limit\<close> conversations and echoes
  \<open>page\<close> and \<open>limit\<close>. Without options the page is 1 and the limit 20.
\<close>

theorem listConversations_pagination:
  assumes "1 \<le> p" and "1 \<le> l"
  shows "let tot = length (filter (\<lambda>d. strict_eq (userId (snd d)) uid) (store w));
             result = listConversations uid (Some p) (Some l) w
         in pages (pagination result) = Num \<lceil>real tot / real_of_int l\<rceil>
          \<and> int tot \<le> \<lceil>real tot / real_of_int l\<rceil> * l
          \<and> (\<lceil>real tot / real_of_int l\<rceil> - 1) * l < int tot
          \<and> totalCount (pagination result) = tot
          \<and> length (conversations result) \<le> nat l
          \<and> page (pagination result) = p
          \<and> limit (pagination result) = l
          \<and> listConversations uid None None w = listConversations uid (Some 1) (Some 20) w"
proof -
  have l0: "l \<noteq> 0" using assms(2) by simp
  show ?thesis
    using ceil_pages [OF assms(2)] l0
    by (simp add: Let_def listConversations_def default_to_def findByUserId_eq [OF assms]
        Math_ceil_div_def)
qed

theorem listConversations_pagination_witness:
  "(1::int) \<le> 1 \<and> (1::int) \<le> 1
   \<and> (let tot = length (filter (\<lambda>d. strict_eq (userId (snd d)) (Some (JStr ''user-1'')))
                           (store (run example_clock [Create example_batch])));
           result = listConversations (Some (JStr ''user-1'')) (Some 1) (Some 1)
                      (run example_clock [Create example_batch])
       in pages (pagination result) = Num \<lceil>real tot / real_of_int 1\<rceil>
        \<and> int tot \<le> \<lceil>real tot / real_of_int 1\<rceil> * 1
        \<and> (\<lceil>real tot / real_of_int 1\<rceil> - 1) * 1 < int tot
        \<and> totalCount (pagination result) = tot
        \<and> length (conversations result) \<le> nat 1
        \<and> page (pagination result) = 1
        \<and> limit (pagination result) = 1
        \<and> listConversations (Some (JStr ''user-1'')) None None (run example_clock [Create example_batch])
            = listConversations (Some (JStr ''user-1'')) (Some 1) (Some 20)
                (run example_clock [Create example_batch]))
   \<and> pagination (listConversations (Some (JStr ''user-1'')) (Some 1) (Some 1)
                    (run example_clock [Create example_batch]))
        = \<lparr>page = 1, limit = 1, totalCount = 2, pages = Num 2\<rparr>"
proof -
  have h: "(1::int) \<le> 1" by simp
  have e: "pagination (listConversations (Some (JStr ''user-1'')) (Some 1) (Some 1)
                    (run example_clock [Create example_batch]))
        = \<lparr>page = 1, limit = 1, totalCount = 2, pages = Num 2\<rparr>"
    by code_simp
  show ?thesis
    by (rule conjI [OF h conjI [OF h conjI [OF
          listConversations_pagination [OF h h, of "Some (JStr ''user-1'')"
            "run example_clock [Create example_batch]"] e]]])
qed

section \<open>The controller\<close>



text \<open>
  C10: for \<open>GET /history\<close> with a \<open>userId\<close>, the handler calls the service with the user
  id, a page and a limit, where the page is 1 when \<open>parseInt\<close> of the \<open>page\<close> parameter
  is \<open>NaN\<close> (the parameter is absent or has no leading integer) or 0, and is the parsed
  number otherwise; the limit is 20 when \<open>parseInt\<close> of the \<open>limit\<close> parameter is \<open>NaN\<close>
  or 0, and is the parsed number otherwise. The limit passed is never 0 and never \<open>NaN\<close>,
  and from a limit that is an integer \<open>listConversations\<close> computes a finite number of
  pages.
\<close>

theorem list_defaults:
  assumes "query_truthy (req_query ''userId'')"
  shows "let page_number = parseInt_param (req_query ''page'');
             limit_number = parseInt_param (req_query ''limit'');
             P = (if page_number = NaN \<or> page_number = Num 0 then Num 1 else page_number);
             L = (if limit_number = NaN \<or> limit_number = Num 0 then Num 20 else limit_number)
         in historyController_list service req_query w =
              (case service (map_option json_of_query (req_query ''userId'')) P L w of
                 (Inl err, w') \<Rightarrow> (Inl err, w')
               | (Inr result, w') \<Rightarrow> (Inr \<lparr>status = 200, body = Payload result\<rparr>, w'))
          \<and> (req_query ''page'' = None \<longrightarrow> P = Num 1)
          \<and> (req_query ''limit'' = None \<longrightarrow> L = Num 20)
          \<and> L \<noteq> Num 0 \<and> L \<noteq> NaN
          \<and> (L = Num l \<longrightarrow>
               (\<exists>k. pages (pagination (listConversations
                       (map_option json_of_query (req_query ''userId'')) (Some p) (Some l) v)) = Num k))"
proof -
  define P where "P = number_or (parseInt_param (req_query ''page'')) 1"
  define L where "L = number_or (parseInt_param (req_query ''limit'')) 20"
  have c1: "historyController_list service req_query w =
              (case service (map_option json_of_query (req_query ''userId'')) P L w of
                 (Inl err, w') \<Rightarrow> (Inl err, w')
               | (Inr result, w') \<Rightarrow> (Inr \<lparr>status = 200, body = Payload result\<rparr>, w'))"
    using assms by (simp add: historyController_list_def Let_def P_def L_def)
  have c2: "req_query ''page'' = None \<longrightarrow> P = Num 1"
    by (simp add: P_def parseInt_param_absent)
  have c3: "req_query ''limit'' = None \<longrightarrow> L = Num 20"
    by (simp add: L_def parseInt_param_absent)
  have c4: "L \<noteq> Num 0" and c5: "L \<noteq> NaN"
    by (simp_all add: L_def number_or_eq)
  have c6: "L = Num l \<longrightarrow>
               (\<exists>k. pages (pagination (listConversations
                       (map_option json_of_query (req_query ''userId'')) (Some p) (Some l) v)) = Num k)"
  proof
    assume "L = Num l"
    with c4 have "l \<noteq> 0" by auto
    then show "\<exists>k. pages (pagination (listConversations
                       (map_option json_of_query (req_query ''userId'')) (Some p) (Some l) v)) = Num k"
      using Math_ceil_div_finite [of l]
      by (simp add: listConversations_def default_to_def Let_def case_prod_unfold)
  qed
  have "historyController_list service req_query w =
              (case service (map_option json_of_query (req_query ''userId'')) P L w of
                 (Inl err, w') \<Rightarrow> (Inl err, w')
               | (Inr result, w') \<Rightarrow> (Inr \<lparr>status = 200, body = Payload result\<rparr>, w'))
          \<and> (req_query ''page'' = None \<longrightarrow> P = Num 1)
          \<and> (req_query ''limit'' = None \<longrightarrow> L = Num 20)
          \<and> L \<noteq> Num 0 \<and> L \<noteq> NaN
          \<and> (L = Num l \<longrightarrow>
               (\<exists>k. pages (pagination (listConversations
                       (map_option json_of_query (req_query ''userId'')) (Some p) (Some l) v)) = Num k))"
    by (rule conjI c1 c2 c3 c4 c5 c6)+
  then show ?thesis
    unfolding Let_def P_def L_def number_or_eq .
qed

theorem list_defaults_witness:
  "query_truthy (example_query ''userId'')
   \<and> parseInt_param (example_query ''page'') = NaN
   \<and> parseInt_param (example_query ''limit'') = Num 0
   \<and> historyController_list example_service example_query example_world
      = (Inr \<lparr>status = 200, body = Payload (Some (JStr ''user-1''), Num 1, Num 20)\<rparr>, example_world)
   \<and> pages (pagination (listConversations (Some (JStr ''user-1'')) (Some 1) (Some 20)
                          (run example_clock [Create example_batch]))) = Num 1
   \<and> query_truthy (example_query_nbsp ''userId'')
   \<and> example_query_nbsp ''page'' = None
   \<and> parseInt_param (example_query_nbsp ''limit'') = Num 7
   \<and> historyController_list example_service example_query_nbsp example_world
      = (Inr \<lparr>status = 200, body = Payload (Some (JStr ''user-1''), Num 1, Num 7)\<rparr>, example_world)
   \<and> query_truthy (example_query_huge ''userId'')
   \<and> example_query_huge ''page'' = None
   \<and> parseInt_param (example_query_huge ''limit'') = Infinity
   \<and> historyController_list example_service example_query_huge example_world
      = (Inr \<lparr>status = 200, body = Payload (Some (JStr ''user-1''), Num 1, Infinity)\<rparr>, example_world)"
proof -
  have h1: "query_truthy (example_query ''userId'')" by (simp add: example_query_def)
  have h2: "query_truthy (example_query_nbsp ''userId'')" by (simp add: example_query_nbsp_def)
  have h3: "query_truthy (example_query_huge ''userId'')" by (simp add: example_query_huge_def)
  have a1: "parseInt_param (example_query ''page'') = NaN" by code_simp
  have a2: "parseInt_param (example_query ''limit'') = Num 0" by code_simp
  have b1: "example_query_nbsp ''page'' = None" by (simp add: example_query_nbsp_def)
  have b2: "parseInt_param (example_query_nbsp ''limit'') = Num 7" by code_simp
  have c1: "example_query_huge ''page'' = None" by (simp add: example_query_huge_def)
  have c2: "parseInt_param (example_query_huge ''limit'') = Infinity" by code_simp
  have u1: "map_option json_of_query (example_query ''userId'') = Some (JStr ''user-1'')"
    by (simp add: example_query_def)
  have u2: "map_option json_of_query (example_query_nbsp ''userId'') = Some (JStr ''user-1'')"
    by (simp add: example_query_nbsp_def)
  have u3: "map_option json_of_query (example_query_huge ''userId'') = Some (JStr ''user-1'')"
    by (simp add: example_query_huge_def)
  have e: "pages (pagination (listConversations (Some (JStr ''user-1'')) (Some 1) (Some 20)
                          (run example_clock [Create example_batch]))) = Num 1"
    by code_simp
  have r1: "historyController_list example_service example_query example_world
      = (Inr \<lparr>status = 200, body = Payload (Some (JStr ''user-1''), Num 1, Num 20)\<rparr>, example_world)"
    using list_defaults [where req_query = example_query and service = example_service
        and w = example_world, OF h1]
    by (simp add: Let_def a1 a2 u1 example_service_def)
  have r2: "historyController_list example_service example_query_nbsp example_world
      = (Inr \<lparr>status = 200, body = Payload (Some (JStr ''user-1''), Num 1, Num 7)\<rparr>, example_world)"
    using list_defaults [where req_query = example_query_nbsp and service = example_service
        and w = example_world, OF h2]
    by (simp add: Let_def b1 b2 u2 parseInt_param_absent example_service_def)
  have r3: "historyController_list example_service example_query_huge example_world
      = (Inr \<lparr>status = 200, body = Payload (Some (JStr ''user-1''), Num 1, Infinity)\<rparr>, example_world)"
    using list_defaults [where req_query = example_query_huge and service = example_service
        and w = example_world, OF h3]
    by (simp add: Let_def c1 c2 u3 parseInt_param_absent example_service_def)
  show ?thesis
    using h1 a1 a2 r1 e h2 b1 b2 r2 h3 c1 c2 r3 by simp
qed

section \<open>The agent proxy\<close>

text \<open>
  C7, as stated, fails: the health probe does not relay an upstream error response.
  Answered 503 with an error message, \<open>getStatus\<close> fails with 502
  \<open>Agent Server unavailable\<close>. And \<open>chat\<close>, answered with an error that carries no
  \<open>error.message\<close>, reports \<open>Agent Server error\<close>.
\<close>

theorem agent_proxy_counterexample:
  "getStatus example_health_503 = Inl (ApiError 502 (JStr ''Agent Server unavailable''))
   \<and> getStatus example_health_503 \<noteq> Inl (ApiError 503 (JStr ''overloaded''))
   \<and> chat example_failing JNull = Inl (ApiError 500 (JStr ''Agent Server error''))"
  by (simp add: getStatus_def chat_def example_health_503_def example_failing_def)

text \<open>
  C7 (amended): \<open>chat\<close> fails with the fixed 502 \<open>Agent Server unavailable\<close> when the
  upstream gives no response, and with the upstream's status code when it answers with an
  error response; the message is then the upstream's \<open>error.message\<close> when the body has a
  truthy one, and \<open>Agent Server error\<close> otherwise. \<open>getStatus\<close> fails with the fixed 502
  \<open>Agent Server unavailable\<close> on every failure, an upstream error response included.
\<close>

theorem agent_proxy_errors:
  "(agentClient_post ''/api/chat'' payload = NoResponse \<longrightarrow>
      chat agentClient_post payload = Inl (ApiError 502 (JStr ''Agent Server unavailable'')))
   \<and> (agentClient_post ''/api/chat'' payload = ErrorResponse st d \<longrightarrow>
      chat agentClient_post payload =
        Inl (ApiError st (or_else (opt_prop (opt_prop d ''error'') ''message'') (JStr ''Agent Server error''))))
   \<and> (agentClient_post ''/api/chat'' payload = ErrorResponse st d
        \<and> opt_prop (opt_prop d ''error'') ''message'' = Some m \<and> truthy m \<longrightarrow>
      chat agentClient_post payload = Inl (ApiError st m))
   \<and> (agentClient_post ''/api/chat'' payload = ErrorResponse st d
        \<and> \<not> truthy_opt (opt_prop (opt_prop d ''error'') ''message'') \<longrightarrow>
      chat agentClient_post payload = Inl (ApiError st (JStr ''Agent Server error'')))
   \<and> (agentClient_get ''/api/health'' = NoResponse
        \<or> agentClient_get ''/api/health'' = ErrorResponse st' d' \<longrightarrow>
      getStatus agentClient_get = Inl (ApiError 502 (JStr ''Agent Server unavailable'')))"
proof -
  have "or_else v (JStr ''Agent Server error'') = JStr ''Agent Server error''"
    if "\<not> truthy_opt v" for v
    using that by (cases v) simp_all
  then show ?thesis
    by (auto simp: chat_def getStatus_def)
qed

theorem agent_proxy_errors_witness:
  "example_down ''/api/chat'' JNull = NoResponse
   \<and> chat example_down JNull = Inl (ApiError 502 (JStr ''Agent Server unavailable''))
   \<and> example_rejecting ''/api/chat'' JNull
        = ErrorResponse 422 (Some (JObj [(''error'', JObj [(''message'', JStr ''Bad input'')])]))
   \<and> opt_prop (opt_prop (Some (JObj [(''error'', JObj [(''message'', JStr ''Bad input'')])])) ''error'') ''message''
        = Some (JStr ''Bad input'')
   \<and> truthy (JStr ''Bad input'')
   \<and> chat example_rejecting JNull = Inl (ApiError 422 (JStr ''Bad input''))
   \<and> example_failing ''/api/chat'' JNull = ErrorResponse 500 (Some (JObj [(''detail'', JStr ''boom'')]))
   \<and> \<not> truthy_opt (opt_prop (opt_prop (Some (JObj [(''detail'', JStr ''boom'')])) ''error'') ''message'')
   \<and> chat example_failing JNull = Inl (ApiError 500 (JStr ''Agent Server error''))
   \<and> example_health_down ''/api/health'' = NoResponse
   \<and> getStatus example_health_down = Inl (ApiError 502 (JStr ''Agent Server unavailable''))
   \<and> example_health_503 ''/api/health''
        = ErrorResponse 503 (Some (JObj [(''error'', JObj [(''message'', JStr ''overloaded'')])]))
   \<and> getStatus example_health_503 = Inl (ApiError 502 (JStr ''Agent Server unavailable''))"
proof -
  have a1: "example_down ''/api/chat'' JNull = NoResponse" by (simp add: example_down_def)
  have a2: "example_rejecting ''/api/chat'' JNull
        = ErrorResponse 422 (Some (JObj [(''error'', JObj [(''message'', JStr ''Bad input'')])]))"
    by (simp add: example_rejecting_def)
  have a3: "opt_prop (opt_prop (Some (JObj [(''error'', JObj [(''message'', JStr ''Bad input'')])])) ''error'') ''message''
        = Some (JStr ''Bad input'')" by simp
  have a4: "truthy (JStr ''Bad input'')" by simp
  have a5: "example_failing ''/api/chat'' JNull = ErrorResponse 500 (Some (JObj [(''detail'', JStr ''boom'')]))"
    by (simp add: example_failing_def)
  have a6: "\<not> truthy_opt (opt_prop (opt_prop (Some (JObj [(''detail'', JStr ''boom'')])) ''error'') ''message'')"
    by simp
  have a7: "example_health_down ''/api/health'' = NoResponse" by (simp add: example_health_down_def)
  have a8: "example_health_503 ''/api/health''
        = ErrorResponse 503 (Some (JObj [(''error'', JObj [(''message'', JStr ''overloaded'')])]))"
    by (simp add: example_health_503_def)
  note t1 = agent_proxy_errors [of example_down JNull _ _ _ example_health_down]
  note t2 = agent_proxy_errors [of example_rejecting JNull 422
      "Some (JObj [(''error'', JObj [(''message'', JStr ''Bad input'')])])" "JStr ''Bad input''"
      example_health_503 503 "Some (JObj [(''error'', JObj [(''message'', JStr ''overloaded'')])])"]
  note t3 = agent_proxy_errors [of example_failing JNull 500
      "Some (JObj [(''detail'', JStr ''boom'')])"]
  show ?thesis using a1 a2 a3 a4 a5 a6 a7 a8 t1 t2 t3 by blast
qed

end
